theory Spec2Isabelle
  imports Complex_Main
begin

section \<open>Python values\<close>

text \<open>
  The three programs (\<^verbatim>\<open>commit_analyzer.py\<close>, \<^verbatim>\<open>search.py\<close>, \<^verbatim>\<open>engine.py\<close>) handle the
  values that \<^verbatim>\<open>json.loads\<close> produces: \<^verbatim>\<open>None\<close>, booleans, integers, floats, strings, lists
  and dictionaries. A dictionary is an association list read with \<open>map_of\<close>. A float is
  a value of the type \<open>pyfloat\<close>, of which nothing is assumed: it stands for the IEEE
  doubles, with their rounding, infinities and NaN, and what Python and SQLite do with one is
  taken from the library record below. A Python string is the list of its code points,
  taken below 256.
\<close>

typedecl pyfloat

datatype json =
    JNull
  | JBool bool
  | JInt int
  | JFloat pyfloat
  | JStr string
  | JList "json list"
  | JDict "(string \<times> json) list"

text \<open>The exceptions the programs can meet. All of them derive from \<^verbatim>\<open>Exception\<close>;
  \<open>RequestException\<close> stands for \<^verbatim>\<open>requests.exceptions.RequestException\<close> and its subclasses
  (connection errors, timeouts, \<^verbatim>\<open>HTTPError\<close>, and the decode error of \<^verbatim>\<open>response.json()\<close>);
  \<open>JSONDecodeError\<close> is the one of the \<^verbatim>\<open>json\<close> module, a \<^verbatim>\<open>ValueError\<close>;
  \<open>ProgrammingError\<close> is the one of \<^verbatim>\<open>sqlite3\<close> for a parameter of a type it cannot bind
  (named \<^verbatim>\<open>InterfaceError\<close> before Python 3.11).\<close>

datatype py_exc =
    RequestException
  | JSONDecodeError
  | TypeError
  | AttributeError
  | OSError
  | CalledProcessError
  | IndexError
  | OperationalError
  | ProgrammingError
  | IntegrityError
  | OverflowError
  | RecursionError

text \<open>Sequencing of steps that may raise: the first exception ends the computation.\<close>

definition then_do :: "py_exc + 'a \<Rightarrow> ('a \<Rightarrow> py_exc + 'b) \<Rightarrow> py_exc + 'b" where
  "then_do r f = (case r of Inl e \<Rightarrow> Inl e | Inr v \<Rightarrow> f v)"

text \<open>\<^verbatim>\<open>obj.get(key, default)\<close>: on a dictionary the value of the key, or the default when
  the key is absent; only a dictionary has the method.\<close>

definition get_default :: "(string \<times> json) list \<Rightarrow> string \<Rightarrow> json \<Rightarrow> json" where
  "get_default kvs k d = (case map_of kvs k of None \<Rightarrow> d | Some v \<Rightarrow> v)"

fun dict_get :: "json \<Rightarrow> string \<Rightarrow> json \<Rightarrow> py_exc + json" where
  "dict_get (JDict kvs) k d = Inr (get_default kvs k d)"
| "dict_get _ k d = Inl AttributeError"

fun is_dict :: "json \<Rightarrow> bool" where
  "is_dict (JDict kvs) = True"
| "is_dict _ = False"

text \<open>\<^verbatim>\<open>str.strip()\<close>, \<^verbatim>\<open>os.path.basename\<close> and \<^verbatim>\<open>str.startswith\<close>.\<close>

definition is_space :: "char \<Rightarrow> bool" where
  "is_space c =
     (let n = (of_char c :: nat)
      in (9 \<le> n \<and> n \<le> 13) \<or> (28 \<le> n \<and> n \<le> 32) \<or> n = 133 \<or> n = 160)"

definition strip :: "string \<Rightarrow> string" where
  "strip s = rev (dropWhile is_space (rev (dropWhile is_space s)))"

definition basename :: "string \<Rightarrow> string" where
  "basename p = rev (takeWhile (\<lambda>c. c \<noteq> CHR ''/'') (rev p))"

fun startswith :: "string \<Rightarrow> string \<Rightarrow> bool" where
  "startswith s [] = True"
| "startswith [] (p # ps) = False"
| "startswith (c # cs) (p # ps) = (c = p \<and> startswith cs ps)"

text \<open>\<^verbatim>\<open>x.strip()\<close> where \<^verbatim>\<open>x\<close> may be \<^verbatim>\<open>None\<close>, which has no such method.\<close>

fun py_strip :: "string option \<Rightarrow> py_exc + string" where
  "py_strip None = Inl AttributeError"
| "py_strip (Some s) = Inr (strip s)"

section \<open>Library functions and the outside world\<close>

text \<open>A value bound to a column of the table, as SQLite holds it.\<close>

datatype sql_value = SqlNull | SqlInteger int | SqlReal pyfloat | SqlText string

text \<open>
  The libraries are taken as given. \<open>loads\<close> is \<^verbatim>\<open>json.loads\<close> on a string: the value, or
  the exception it raises (\<^verbatim>\<open>JSONDecodeError\<close> for a text that is not JSON,
  \<^verbatim>\<open>RecursionError\<close> for one nested too deeply). \<open>dumps\<close> is \<^verbatim>\<open>json.dumps\<close>, and \<open>strftime\<close>
  renders a clock reading in the format \<^verbatim>\<open>%Y-%m-%d %H:%M:%S\<close>. \<open>float_add\<close> is the sum of two
  floats, \<open>float_of_int\<close> the conversion of an integer that precedes a mixed sum (it raises
  \<^verbatim>\<open>OverflowError\<close> for an integer beyond the doubles) and \<open>float_nonzero\<close> the truth value
  of a float. \<open>integer_text\<close> is the text SQLite puts into a column declared \<^verbatim>\<open>TEXT\<close> when
  an integer is inserted, and \<open>float_stored\<close> what it puts there for a float (its text form,
  or \<^verbatim>\<open>NULL\<close> for NaN).
\<close>

record pylib =
  loads :: "string \<Rightarrow> py_exc + json"
  dumps :: "json \<Rightarrow> string"
  strftime :: "nat \<Rightarrow> string"
  float_add :: "pyfloat \<Rightarrow> pyfloat \<Rightarrow> pyfloat"
  float_of_int :: "int \<Rightarrow> py_exc + pyfloat"
  float_nonzero :: "pyfloat \<Rightarrow> bool"
  integer_text :: "int \<Rightarrow> string"
  float_stored :: "pyfloat \<Rightarrow> sql_value"

text \<open>Truth value of a Python object, as \<^verbatim>\<open>if analysis:\<close> tests it.\<close>

fun truthy :: "pylib \<Rightarrow> json \<Rightarrow> bool" where
  "truthy L JNull = False"
| "truthy L (JBool b) = b"
| "truthy L (JInt i) = (i \<noteq> 0)"
| "truthy L (JFloat f) = float_nonzero L f"
| "truthy L (JStr s) = (s \<noteq> [])"
| "truthy L (JList xs) = (xs \<noteq> [])"
| "truthy L (JDict kvs) = (kvs \<noteq> [])"

text \<open>The operator \<^verbatim>\<open>+\<close> on two such values: lists and strings concatenate, numbers
  (booleans included) add, an integer or boolean being converted first when the other
  operand is a float; every other pairing raises \<^verbatim>\<open>TypeError\<close>.\<close>

fun py_add :: "pylib \<Rightarrow> json \<Rightarrow> json \<Rightarrow> py_exc + json" where
  "py_add L (JList xs) (JList ys) = Inr (JList (xs @ ys))"
| "py_add L (JStr s) (JStr t) = Inr (JStr (s @ t))"
| "py_add L (JInt i) (JInt j) = Inr (JInt (i + j))"
| "py_add L (JInt i) (JBool c) = Inr (JInt (i + of_bool c))"
| "py_add L (JBool b) (JInt j) = Inr (JInt (of_bool b + j))"
| "py_add L (JBool b) (JBool c) = Inr (JInt (of_bool b + of_bool c))"
| "py_add L (JFloat f) (JFloat g) = Inr (JFloat (float_add L f g))"
| "py_add L (JFloat f) (JInt j) =
     then_do (float_of_int L j) (\<lambda>g. Inr (JFloat (float_add L f g)))"
| "py_add L (JFloat f) (JBool c) =
     then_do (float_of_int L (of_bool c)) (\<lambda>g. Inr (JFloat (float_add L f g)))"
| "py_add L (JInt i) (JFloat g) =
     then_do (float_of_int L i) (\<lambda>f. Inr (JFloat (float_add L f g)))"
| "py_add L (JBool b) (JFloat g) =
     then_do (float_of_int L (of_bool b)) (\<lambda>f. Inr (JFloat (float_add L f g)))"
| "py_add L _ _ = Inl TypeError"

text \<open>\<^verbatim>\<open>json.loads(x)\<close> on an arbitrary object: only a string is accepted.\<close>

fun json_loads :: "pylib \<Rightarrow> json \<Rightarrow> py_exc + json" where
  "json_loads L (JStr s) = loads L s"
| "json_loads L _ = Inl TypeError"

text \<open>
  The object \<^verbatim>\<open>requests.post\<close> returns: its status code and what \<^verbatim>\<open>response.json()\<close>
  yields (\<open>None\<close> when the body is not JSON). The backend's answer to one request is
  \<open>post\<close> (\<open>None\<close> when \<^verbatim>\<open>requests.post\<close> itself raises: no connection, timeout) and the
  call takes \<open>latency\<close> seconds.
\<close>

record response =
  status_code :: nat
  json_body :: "json option"

record backend =
  post :: "response option"
  latency :: nat

text \<open>What one run of the commit hook finds: the decoded output of the three git commands
  and the content of the commit message file named by \<^verbatim>\<open>sys.argv[1]\<close>, each of which
  may raise instead.\<close>

record hook_env = backend +
  git_diff :: "py_exc + string"
  commit_msg_file :: "py_exc + string"
  git_user_name :: "py_exc + string"
  git_toplevel :: "py_exc + string"

text \<open>What the handler of one file event finds: the file contents that \<^verbatim>\<open>open\<close> and
  \<^verbatim>\<open>read\<close> deliver (decoding errors are ignored, so only the operating system can fail) and
  the result of \<^verbatim>\<open>os.getlogin()\<close>.\<close>

record watch_env = backend +
  read_file :: "string \<Rightarrow> py_exc + string"
  getlogin :: "py_exc + string"

record event =
  is_directory :: bool
  src_path :: string

section \<open>The table \<^verbatim>\<open>expertise_log\<close>\<close>

text \<open>Binding a Python object to a parameter of a statement. Lists and dictionaries
  cannot be bound, nor an integer outside 64 bits.\<close>

fun bind_param :: "json \<Rightarrow> py_exc + sql_value" where
  "bind_param JNull = Inr SqlNull"
| "bind_param (JBool b) = Inr (SqlInteger (of_bool b))"
| "bind_param (JInt i) =
     (if - 9223372036854775808 \<le> i \<and> i \<le> 9223372036854775807 then Inr (SqlInteger i)
      else Inl OverflowError)"
| "bind_param (JFloat f) = Inr (SqlReal f)"
| "bind_param (JStr s) = Inr (SqlText s)"
| "bind_param (JList xs) = Inl ProgrammingError"
| "bind_param (JDict kvs) = Inl ProgrammingError"

text \<open>What a column declared \<^verbatim>\<open>TEXT\<close> holds after a bound value is inserted: a number is
  converted to its text form.\<close>

fun stored_text :: "pylib \<Rightarrow> sql_value \<Rightarrow> sql_value" where
  "stored_text L SqlNull = SqlNull"
| "stored_text L (SqlInteger i) = SqlText (integer_text L i)"
| "stored_text L (SqlReal f) = float_stored L f"
| "stored_text L (SqlText s) = SqlText s"

fun bind_str :: "string option \<Rightarrow> sql_value" where
  "bind_str None = SqlNull"
| "bind_str (Some s) = SqlText s"

text \<open>The columns every variant of the table has, then the two variants: the one of
  \<^verbatim>\<open>search.py\<close> and \<^verbatim>\<open>engine.py\<close>, and the one of \<^verbatim>\<open>commit_analyzer.py\<close>.\<close>

record log_row =
  row_id :: nat
  user_id :: string
  timestamp :: string

record file_row = log_row +
  file_path :: string
  technologies :: string
  core_concepts :: string
  summary :: sql_value

record commit_row = log_row +
  repo_name :: sql_value
  commit_hash :: string
  primary_technologies :: string
  supporting_libraries :: string
  key_patterns_and_concepts :: string
  inferred_skills :: string
  analysis_summary :: sql_value

text \<open>
  The state a program runs in. \<open>clock\<close> is the time in seconds; \<open>db_ok\<close> says whether
  \<^verbatim>\<open>sqlite3.connect\<close> and its statements can reach the database file; \<open>table_exists\<close>,
  \<open>rows\<close> and \<open>seq\<close> are the table and the counter that \<^verbatim>\<open>AUTOINCREMENT\<close> keeps (the largest
  id ever given). The last three fields are bookkeeping for the statements below: the paths
  handed to \<^verbatim>\<open>open\<close>, the contents handed to \<^verbatim>\<open>analyze_content_with_llm\<close>, and the number of
  calls of \<^verbatim>\<open>save_expertise\<close>.
\<close>

record 'row world =
  clock :: nat
  db_ok :: bool
  table_exists :: bool
  rows :: "'row list"
  seq :: nat
  opened :: "string list"
  llm_calls :: "string list"
  save_calls :: nat

definition max_rowid :: nat where
  "max_rowid = 9223372036854775807"

text \<open>\<^verbatim>\<open>init_database\<close>, the same in the three programs:
  \<^verbatim>\<open>CREATE TABLE IF NOT EXISTS\<close> leaves an existing table as it is.\<close>

definition init_database :: "'row world \<Rightarrow> py_exc + 'row world" where
  "init_database w =
     (if db_ok w then Inr (w\<lparr>table_exists := True\<rparr>) else Inl OperationalError)"

text \<open>
  The last step of \<^verbatim>\<open>cursor.execute('INSERT ...', params)\<close> followed by \<^verbatim>\<open>commit\<close>, once the
  statement is prepared and its parameters are bound: the id of the new row is one more
  than the counter, and no id beyond the largest 64-bit integer is given.
\<close>

definition execute_insert :: "(nat \<Rightarrow> 'row) \<Rightarrow> 'row world \<Rightarrow> py_exc + 'row world" where
  "execute_insert mk w =
     (if seq w < max_rowid
      then Inr (w\<lparr>rows := rows w @ [mk (seq w + 1)], seq := seq w + 1\<rparr>)
      else Inl OperationalError)"

section \<open>The analysis client\<close>

text \<open>
  The body of the \<^verbatim>\<open>try\<close> block of \<^verbatim>\<open>analyze_content_with_llm\<close>, the same in the three
  programs but for the prompt text and the timeout: \<^verbatim>\<open>requests.post\<close>,
  \<^verbatim>\<open>raise_for_status()\<close> (which raises on a status from 400 to 599), \<^verbatim>\<open>response.json()\<close>,
  \<^verbatim>\<open>.get("response", "{}")\<close> and \<^verbatim>\<open>json.loads\<close>. A body that is not JSON makes
  \<^verbatim>\<open>response.json()\<close> raise the decode error of \<^verbatim>\<open>requests\<close>, which is a
  \<^verbatim>\<open>RequestException\<close> (as of requests 2.27).
\<close>

definition llm_request :: "pylib \<Rightarrow> response option \<Rightarrow> py_exc + json" where
  "llm_request L p =
     (case p of
        None \<Rightarrow> Inl RequestException
      | Some resp \<Rightarrow>
          if 400 \<le> status_code resp \<and> status_code resp < 600 then Inl RequestException
          else
            then_do (case json_body resp of None \<Rightarrow> Inl RequestException | Some e \<Rightarrow> Inr e)
              (\<lambda>envelope.
            then_do (dict_get envelope ''response'' (JStr ''{}''))
              (\<lambda>payload. json_loads L payload)))"

text \<open>The handler \<^verbatim>\<open>except requests.exceptions.RequestException\<close> returns \<^verbatim>\<open>None\<close>; any
  other exception leaves the function.\<close>

definition except_RequestException :: "py_exc + json \<Rightarrow> py_exc + json" where
  "except_RequestException r =
     (case r of
        Inl e \<Rightarrow> if e = RequestException then Inr JNull else Inl e
      | Inr v \<Rightarrow> Inr v)"

definition analyze_content_with_llm ::
  "pylib \<Rightarrow> ('e backend_scheme) \<Rightarrow> string \<Rightarrow> 'row world \<Rightarrow> (py_exc + json) \<times> 'row world" where
  "analyze_content_with_llm L env content w =
     (except_RequestException (llm_request L (post env)),
      w\<lparr>llm_calls := llm_calls w @ [content], clock := clock w + latency env\<rparr>)"

section \<open>\<^verbatim>\<open>commit_analyzer.py\<close>\<close>

text \<open>
  \<^verbatim>\<open>save_expertise\<close> of \<^verbatim>\<open>commit_analyzer.py\<close>: \<^verbatim>\<open>sqlite3.connect\<close>, the evaluation of the
  parameter tuple, then \<^verbatim>\<open>execute\<close> (the table must exist, the summary must be a value
  that can be bound, \<^verbatim>\<open>user_id\<close> is declared \<^verbatim>\<open>NOT NULL\<close>) and \<^verbatim>\<open>commit\<close>. An exception leaves
  the table as it was: nothing is committed.
\<close>

definition commit_insert ::
  "pylib \<Rightarrow> string option \<Rightarrow> string option \<Rightarrow> string \<Rightarrow> json \<Rightarrow> commit_row world
     \<Rightarrow> py_exc + commit_row world" where
  "commit_insert L user repo hash analysis w =
     (if db_ok w then
        then_do (dict_get analysis ''primary_technologies'' (JList [])) (\<lambda>pt.
        then_do (dict_get analysis ''supporting_libraries'' (JList [])) (\<lambda>sl.
        then_do (dict_get analysis ''key_patterns_and_concepts'' (JList [])) (\<lambda>kp.
        then_do (dict_get analysis ''inferred_skills'' (JList [])) (\<lambda>sk.
        then_do (dict_get analysis ''analysis_summary'' (JStr [])) (\<lambda>su.
        if table_exists w then
          then_do (bind_param su) (\<lambda>sv.
          case user of
            None \<Rightarrow> Inl IntegrityError
          | Some u \<Rightarrow>
              execute_insert
                (\<lambda>i. \<lparr>row_id = i, user_id = u, timestamp = strftime L (clock w),
                     repo_name = bind_str repo, commit_hash = hash,
                     primary_technologies = dumps L pt,
                     supporting_libraries = dumps L sl,
                     key_patterns_and_concepts = dumps L kp,
                     inferred_skills = dumps L sk,
                     analysis_summary = stored_text L sv\<rparr>) w)
        else Inl OperationalError)))))
      else Inl OperationalError)"

definition save_expertise_commit_analyzer ::
  "pylib \<Rightarrow> string option \<Rightarrow> string option \<Rightarrow> string \<Rightarrow> json \<Rightarrow> commit_row world
     \<Rightarrow> (py_exc + unit) \<times> commit_row world" where
  "save_expertise_commit_analyzer L user repo hash analysis w =
     (let w1 = w\<lparr>save_calls := save_calls w + 1\<rparr>
      in case commit_insert L user repo hash analysis w1 of
           Inl e \<Rightarrow> (Inl e, w1)
         | Inr w2 \<Rightarrow> (Inr (), w2))"

text \<open>\<^verbatim>\<open>get_git_info\<close>: any exception of the \<^verbatim>\<open>try\<close> block gives four \<^verbatim>\<open>None\<close>s.\<close>

definition get_git_info ::
  "hook_env \<Rightarrow> string option \<times> string option \<times> string option \<times> string option" where
  "get_git_info env =
     (case
        then_do (git_diff env) (\<lambda>diff.
        then_do (commit_msg_file env) (\<lambda>commit_message.
        then_do (git_user_name env) (\<lambda>u.
        then_do (git_toplevel env) (\<lambda>t.
        Inr (diff, commit_message, strip u, basename (strip t))))))
      of
        Inl e \<Rightarrow> (None, None, None, None)
      | Inr (diff, commit_message, user_name, repo) \<Rightarrow>
          (Some diff, Some commit_message, Some user_name, Some repo))"

text \<open>A single writer: calls of \<^verbatim>\<open>save_expertise\<close> one after the other, each with the
  time at which it runs and its arguments; the caller goes on after an exception.\<close>

fun save_all ::
  "pylib \<Rightarrow> (nat \<times> string option \<times> string option \<times> string \<times> json) list
     \<Rightarrow> commit_row world \<Rightarrow> commit_row world" where
  "save_all L [] w = w"
| "save_all L ((t, user, repo, hash, analysis) # cs) w =
     save_all L cs
       (snd (save_expertise_commit_analyzer L user repo hash analysis (w\<lparr>clock := t\<rparr>)))"

text \<open>How the process ends: \<^verbatim>\<open>sys.exit(n)\<close>, or an exception nobody catches, upon which
  the interpreter prints a traceback and exits with status 1.\<close>

datatype outcome = Exit nat | Uncaught py_exc

fun exit_code :: "outcome \<Rightarrow> nat" where
  "exit_code (Exit n) = n"
| "exit_code (Uncaught e) = 1"

text \<open>A value inside an f-string, and the content the script builds from the commit
  message and the diff.\<close>

fun py_format :: "string option \<Rightarrow> string" where
  "py_format None = ''None''"
| "py_format (Some s) = s"

definition analysis_content :: "string \<Rightarrow> string \<Rightarrow> string" where
  "analysis_content commit_message diff =
     ''Commit Message:'' @ [CHR 0x0A] @ commit_message @ [CHR 0x0A, CHR 0x0A] @
     ''Code Diff:'' @ [CHR 0x0A] @ diff"

text \<open>The script body under \<^verbatim>\<open>if __name__ == "__main__"\<close>.\<close>

definition main :: "pylib \<Rightarrow> hook_env \<Rightarrow> commit_row world \<Rightarrow> outcome \<times> commit_row world" where
  "main L env w0 =
     (case init_database w0 of
        Inl e \<Rightarrow> (Uncaught e, w0)
      | Inr w \<Rightarrow>
          (case get_git_info env of
             (diff, commit_message, user_name, repo) \<Rightarrow>
               (case py_strip diff of
                  Inl e \<Rightarrow> (Uncaught e, w)
                | Inr d \<Rightarrow>
                    if d = [] then (Exit 0, w)
                    else
                      (case py_strip commit_message of
                         Inl e \<Rightarrow> (Uncaught e, w)
                       | Inr m \<Rightarrow>
                           if m = [] then (Exit 0, w)
                           else
                             (case analyze_content_with_llm L env
                                     (analysis_content (py_format commit_message)
                                        (py_format diff)) w of
                                (Inl e, w1) \<Rightarrow> (Uncaught e, w1)
                              | (Inr analysis, w1) \<Rightarrow>
                                  if truthy L analysis then
                                    (case save_expertise_commit_analyzer L user_name repo
                                            ''pre-commit-analysis'' analysis w1 of
                                       (Inl e, w2) \<Rightarrow> (Uncaught e, w2)
                                     | (Inr u, w2) \<Rightarrow> (Exit 0, w2))
                                  else (Exit 0, w1))))))"

section \<open>\<^verbatim>\<open>search.py\<close> and \<^verbatim>\<open>engine.py\<close>\<close>

definition search_insert ::
  "pylib \<Rightarrow> string \<Rightarrow> string \<Rightarrow> json \<Rightarrow> file_row world \<Rightarrow> py_exc + file_row world" where
  "search_insert L user path analysis w =
     (if db_ok w then
        then_do (dict_get analysis ''primary_technologies'' (JList [])) (\<lambda>pt.
        then_do (dict_get analysis ''supporting_libraries'' (JList [])) (\<lambda>sl.
        then_do (py_add L pt sl) (\<lambda>tech.
        then_do (dict_get analysis ''key_patterns_and_concepts'' (JList [])) (\<lambda>kp.
        then_do (dict_get analysis ''inferred_skills'' (JList [])) (\<lambda>sk.
        then_do (py_add L kp sk) (\<lambda>conc.
        then_do (dict_get analysis ''analysis_summary'' (JStr [])) (\<lambda>su.
        if table_exists w then
          then_do (bind_param su) (\<lambda>sv.
          execute_insert
            (\<lambda>i. \<lparr>row_id = i, user_id = user, timestamp = strftime L (clock w),
                 file_path = path, technologies = dumps L tech,
                 core_concepts = dumps L conc, summary = stored_text L sv\<rparr>) w)
        else Inl OperationalError)))))))
      else Inl OperationalError)"

definition save_expertise_search ::
  "pylib \<Rightarrow> string \<Rightarrow> string \<Rightarrow> json \<Rightarrow> file_row world \<Rightarrow> (py_exc + unit) \<times> file_row world" where
  "save_expertise_search L user path analysis w =
     (let w1 = w\<lparr>save_calls := save_calls w + 1\<rparr>
      in case search_insert L user path analysis w1 of
           Inl e \<Rightarrow> (Inl e, w1)
         | Inr w2 \<Rightarrow> (Inr (), w2))"

definition engine_insert ::
  "pylib \<Rightarrow> string \<Rightarrow> string \<Rightarrow> json \<Rightarrow> file_row world \<Rightarrow> py_exc + file_row world" where
  "engine_insert L user path analysis w =
     (if db_ok w then
        then_do (dict_get analysis ''technologies'' (JList [])) (\<lambda>tech.
        then_do (dict_get analysis ''core_concepts'' (JList [])) (\<lambda>conc.
        then_do (dict_get analysis ''summary'' (JStr [])) (\<lambda>su.
        if table_exists w then
          then_do (bind_param su) (\<lambda>sv.
          execute_insert
            (\<lambda>i. \<lparr>row_id = i, user_id = user, timestamp = strftime L (clock w),
                 file_path = path, technologies = dumps L tech,
                 core_concepts = dumps L conc, summary = stored_text L sv\<rparr>) w)
        else Inl OperationalError)))
      else Inl OperationalError)"

definition save_expertise_engine ::
  "pylib \<Rightarrow> string \<Rightarrow> string \<Rightarrow> json \<Rightarrow> file_row world \<Rightarrow> (py_exc + unit) \<times> file_row world" where
  "save_expertise_engine L user path analysis w =
     (let w1 = w\<lparr>save_calls := save_calls w + 1\<rparr>
      in case engine_insert L user path analysis w1 of
           Inl e \<Rightarrow> (Inl e, w1)
         | Inr w2 \<Rightarrow> (Inr (), w2))"

text \<open>The \<^verbatim>\<open>print\<close> lines of the handlers evaluate \<^verbatim>\<open>analysis.get(key, 'N/A')\<close> for
  each key of a list, in order: the five keys of the newer prompt in \<^verbatim>\<open>search.py\<close>, the three
  keys of the older prompt in \<^verbatim>\<open>engine.py\<close>.\<close>

fun eval_gets :: "json \<Rightarrow> string list \<Rightarrow> py_exc + unit" where
  "eval_gets a [] = Inr ()"
| "eval_gets a (k # ks) =
     (case dict_get a k (JStr ''N/A'') of Inl e \<Rightarrow> Inl e | Inr v \<Rightarrow> eval_gets a ks)"

definition canonical_keys :: "string list" where
  "canonical_keys =
     [''primary_technologies'', ''supporting_libraries'', ''key_patterns_and_concepts'',
      ''inferred_skills'', ''analysis_summary'']"

definition legacy_keys :: "string list" where
  "legacy_keys = [''technologies'', ''core_concepts'', ''summary'']"

text \<open>The body of the \<^verbatim>\<open>try\<close> block of \<^verbatim>\<open>on_modified\<close>, which differs between the two
  programs in the keys printed and in the \<^verbatim>\<open>save_expertise\<close> called.\<close>

definition try_file ::
  "string list
     \<Rightarrow> (pylib \<Rightarrow> string \<Rightarrow> string \<Rightarrow> json \<Rightarrow> file_row world \<Rightarrow> (py_exc + unit) \<times> file_row world)
     \<Rightarrow> pylib \<Rightarrow> watch_env \<Rightarrow> string \<Rightarrow> file_row world \<Rightarrow> (py_exc + unit) \<times> file_row world" where
  "try_file keys save L env path w0 =
     (let w = w0\<lparr>opened := opened w0 @ [path]\<rparr>
      in case read_file env path of
           Inl e \<Rightarrow> (Inl e, w)
         | Inr content \<Rightarrow>
             if strip content = [] then (Inr (), w)
             else
               (case analyze_content_with_llm L env content w of
                  (Inl e, w1) \<Rightarrow> (Inl e, w1)
                | (Inr analysis, w1) \<Rightarrow>
                    if truthy L analysis then
                      (case eval_gets analysis keys of
                         Inl e \<Rightarrow> (Inl e, w1)
                       | Inr u \<Rightarrow>
                           (case getlogin env of
                              Inl e \<Rightarrow> (Inl e, w1)
                            | Inr login \<Rightarrow> save L login path analysis w1))
                    else (Inr (), w1)))"

text \<open>\<^verbatim>\<open>MyEventHandler.on_modified\<close> of \<^verbatim>\<open>search.py\<close>. The handler
  \<^verbatim>\<open>except Exception\<close> prints the exception and the method returns.\<close>

definition on_modified_search ::
  "pylib \<Rightarrow> watch_env \<Rightarrow> event \<Rightarrow> file_row world \<Rightarrow> file_row world" where
  "on_modified_search L env ev w =
     (if is_directory ev then w
      else if startswith (basename (src_path ev)) ''.'' then w
      else snd (try_file canonical_keys save_expertise_search L env (src_path ev) w))"

text \<open>\<^verbatim>\<open>MyEventHandler.on_modified\<close> of \<^verbatim>\<open>engine.py\<close>, which has no test on the file's
  name.\<close>

definition on_modified_engine ::
  "pylib \<Rightarrow> watch_env \<Rightarrow> event \<Rightarrow> file_row world \<Rightarrow> file_row world" where
  "on_modified_engine L env ev w =
     (if is_directory ev then w
      else snd (try_file legacy_keys save_expertise_engine L env (src_path ev) w))"

section \<open>Concrete inputs\<close>

text \<open>
  A finite excerpt of \<open>loads\<close>, \<open>dumps\<close> and \<open>strftime\<close> for the examples: every listed pair
  is what CPython computes (\<open>strftime\<close> read in UTC, and \<^verbatim>\<open>not json\<close>, like every text that
  is not listed, taken as not decodable); arguments outside the excerpt are not used by any
  example that depends on their value. No example contains a float or a number as summary,
  so the last five functions are never applied there and are given arbitrary values.
\<close>

definition excerpt_lib :: pylib where
  \<open>excerpt_lib =
     \<lparr>loads = (\<lambda>s.
        if s = ''{}'' then Inr (JDict [])
        else if s = ''{"language": "Python"}''
          then Inr (JDict [(''language'', JStr ''Python'')])
        else if s = ''{"technologies": ["Python"]}''
          then Inr (JDict [(''technologies'', JList [JStr ''Python''])])
        else if s = ''{"primary_technologies": "Python"}''
          then Inr (JDict [(''primary_technologies'', JStr ''Python'')])
        else if s = ''["Python"]'' then Inr (JList [JStr ''Python''])
        else Inl JSONDecodeError),
      dumps = (\<lambda>v.
        if v = JList [] then ''[]''
        else if v = JList [JStr ''Python''] then ''["Python"]''
        else []),
      strftime = (\<lambda>t.
        if t = 0 then ''1970-01-01 00:00:00''
        else if t = 5 then ''1970-01-01 00:00:05''
        else []),
      float_add = (\<lambda>f g. f),
      float_of_int = (\<lambda>i. Inl OverflowError),
      float_nonzero = (\<lambda>f. True),
      integer_text = (\<lambda>i. []),
      float_stored = (\<lambda>f. SqlNull)\<rparr>\<close>

text \<open>An initialised, empty database at time 0.\<close>

definition fresh :: "'row world" where
  "fresh = \<lparr>clock = 0, db_ok = True, table_exists = True, rows = [], seq = 0,
            opened = [], llm_calls = [], save_calls = 0\<rparr>"

text \<open>The backend's answer \<^verbatim>\<open>{"response": payload}\<close> with status 200.\<close>

definition reply :: "string \<Rightarrow> response" where
  "reply payload =
     \<lparr>status_code = 200, json_body = Some (JDict [(''response'', JStr payload)])\<rparr>"

text \<open>A commit of user \<^verbatim>\<open>alice\<close> in the repository \<^verbatim>\<open>proj\<close> (the git commands end their
  output with a newline), and a watched folder in which every file reads
  \<^verbatim>\<open>def foo(): pass\<close>; the backend answers after 5 seconds.\<close>

definition hook_sample :: "response option \<Rightarrow> hook_env" where
  "hook_sample p =
     \<lparr>post = p, latency = 5,
      git_diff = Inr ''+x = 1'', commit_msg_file = Inr ''Add x'',
      git_user_name = Inr (''alice'' @ [CHR 0x0A]),
      git_toplevel = Inr (''/home/alice/proj'' @ [CHR 0x0A])\<rparr>"

definition watch_sample :: "response option \<Rightarrow> watch_env" where
  "watch_sample p =
     \<lparr>post = p, latency = 5,
      read_file = (\<lambda>path. Inr ''def foo(): pass''), getlogin = Inr ''alice''\<rparr>"

section \<open>Auxiliary facts\<close>

lemma then_do_simps [simp]:
  "then_do (Inl e) f = Inl e"
  "then_do (Inr v) f = f v"
  by (simp_all add: then_do_def)

text \<open>With a status outside 400..599 and a JSON object as envelope, the result of the
  analysis is decided by \<^verbatim>\<open>json.loads\<close> on the field \<^verbatim>\<open>response\<close>.\<close>

lemma analyze_payload:
  assumes "post env = Some resp"
    and "status_code resp < 400 \<or> 600 \<le> status_code resp"
    and "json_body resp = Some (JDict kvs)"
  shows "analyze_content_with_llm L env content w =
     (except_RequestException
        (json_loads L (get_default kvs ''response'' (JStr ''{}''))),
      w\<lparr>llm_calls := llm_calls w @ [content], clock := clock w + latency env\<rparr>)"
  using assms by (auto simp: analyze_content_with_llm_def llm_request_def)

text \<open>A successful insert appends exactly one row, whose id is one more than the counter
  and whose timestamp is the clock at the time of the call.\<close>

lemma execute_insert_Inr:
  "execute_insert mk w = Inr w' \<Longrightarrow>
     w' = w\<lparr>rows := rows w @ [mk (Suc (seq w))], seq := Suc (seq w)\<rparr> \<and> seq w < max_rowid"
  by (auto simp: execute_insert_def split: if_splits)

lemma then_do_Inr: "then_do r f = Inr y \<Longrightarrow> \<exists>v. r = Inr v \<and> f v = Inr y"
  by (cases r) auto

lemma commit_insert_Inr:
  assumes "commit_insert L user repo hash a w = Inr w'"
  shows "\<exists>r. rows w' = rows w @ [r] \<and> row_id r = Suc (seq w)
           \<and> timestamp r = strftime L (clock w) \<and> seq w' = Suc (seq w)
           \<and> save_calls w' = save_calls w \<and> llm_calls w' = llm_calls w
           \<and> opened w' = opened w"
  using assms unfolding commit_insert_def
  by (auto split: if_splits option.splits dest!: then_do_Inr execute_insert_Inr)

lemma search_insert_Inr:
  assumes "search_insert L user path a w = Inr w'"
  shows "\<exists>r. rows w' = rows w @ [r] \<and> row_id r = Suc (seq w)
           \<and> timestamp r = strftime L (clock w) \<and> seq w' = Suc (seq w)
           \<and> save_calls w' = save_calls w \<and> llm_calls w' = llm_calls w
           \<and> opened w' = opened w"
  using assms unfolding search_insert_def
  by (auto split: if_splits dest!: then_do_Inr execute_insert_Inr)

lemma engine_insert_Inr:
  assumes "engine_insert L user path a w = Inr w'"
  shows "\<exists>r. rows w' = rows w @ [r] \<and> row_id r = Suc (seq w)
           \<and> timestamp r = strftime L (clock w) \<and> seq w' = Suc (seq w)
           \<and> save_calls w' = save_calls w \<and> llm_calls w' = llm_calls w
           \<and> opened w' = opened w"
  using assms unfolding engine_insert_def
  by (auto split: if_splits dest!: then_do_Inr execute_insert_Inr)

lemma save_commit_effect:
  "save_calls (snd (save_expertise_commit_analyzer L user repo hash a w)) = Suc (save_calls w)
   \<and> llm_calls (snd (save_expertise_commit_analyzer L user repo hash a w)) = llm_calls w
   \<and> (rows (snd (save_expertise_commit_analyzer L user repo hash a w)) = rows w \<and>
      seq (snd (save_expertise_commit_analyzer L user repo hash a w)) = seq w
      \<or> (\<exists>r. rows (snd (save_expertise_commit_analyzer L user repo hash a w)) = rows w @ [r]
            \<and> seq (snd (save_expertise_commit_analyzer L user repo hash a w)) = Suc (seq w)
            \<and> row_id r = Suc (seq w) \<and> timestamp r = strftime L (clock w)))"
  by (auto simp: save_expertise_commit_analyzer_def Let_def split: sum.splits
      dest!: commit_insert_Inr)

lemma save_search_effect:
  "save_calls (snd (save_expertise_search L user path a w)) = Suc (save_calls w)
   \<and> llm_calls (snd (save_expertise_search L user path a w)) = llm_calls w
   \<and> opened (snd (save_expertise_search L user path a w)) = opened w
   \<and> (rows (snd (save_expertise_search L user path a w)) = rows w
      \<or> (\<exists>r. rows (snd (save_expertise_search L user path a w)) = rows w @ [r]))"
  by (auto simp: save_expertise_search_def Let_def split: sum.splits dest!: search_insert_Inr)

lemma save_engine_effect:
  "save_calls (snd (save_expertise_engine L user path a w)) = Suc (save_calls w)
   \<and> llm_calls (snd (save_expertise_engine L user path a w)) = llm_calls w
   \<and> opened (snd (save_expertise_engine L user path a w)) = opened w
   \<and> (rows (snd (save_expertise_engine L user path a w)) = rows w
      \<or> (\<exists>r. rows (snd (save_expertise_engine L user path a w)) = rows w @ [r]))"
  by (auto simp: save_expertise_engine_def Let_def split: sum.splits dest!: engine_insert_Inr)

lemma save_commit_result:
  assumes "save_expertise_commit_analyzer L user repo hash a w = (res, w')"
  shows "save_calls w' = Suc (save_calls w) \<and> llm_calls w' = llm_calls w
       \<and> (rows w' = rows w \<and> seq w' = seq w
          \<or> (\<exists>r. rows w' = rows w @ [r] \<and> seq w' = Suc (seq w)
                \<and> row_id r = Suc (seq w) \<and> timestamp r = strftime L (clock w)))"
  using save_commit_effect [of L user repo hash a w] assms by simp

lemma save_all_ids:
  "map row_id (rows (save_all L cs w))
     = map row_id (rows w) @ [Suc (seq w) ..< Suc (seq (save_all L cs w))]
   \<and> seq w \<le> seq (save_all L cs w)
   \<and> length (rows (save_all L cs w)) = length (rows w) + (seq (save_all L cs w) - seq w)"
proof (induction cs arbitrary: w)
  case Nil
  then show ?case by simp
next
  case (Cons c cs)
  obtain t user repo hash a where c: "c = (t, user, repo, hash, a)"
    by (cases c) auto
  define w1 where "w1 = snd (save_expertise_commit_analyzer L user repo hash a (w\<lparr>clock := t\<rparr>))"
  have step: "save_all L (c # cs) w = save_all L cs w1"
    by (simp add: c w1_def)
  have eff: "rows w1 = rows w \<and> seq w1 = seq w
      \<or> (\<exists>r. rows w1 = rows w @ [r] \<and> seq w1 = Suc (seq w) \<and> row_id r = Suc (seq w))"
    using save_commit_effect [of L user repo hash a "w\<lparr>clock := t\<rparr>"]
    by (auto simp: w1_def)
  note ih = Cons.IH [of w1]
  from eff show ?case
  proof
    assume "rows w1 = rows w \<and> seq w1 = seq w"
    with ih show ?thesis by (simp add: step)
  next
    assume "\<exists>r. rows w1 = rows w @ [r] \<and> seq w1 = Suc (seq w) \<and> row_id r = Suc (seq w)"
    then obtain r where r: "rows w1 = rows w @ [r]" "seq w1 = Suc (seq w)"
      "row_id r = Suc (seq w)" by blast
    have le: "Suc (seq w) \<le> seq (save_all L cs w1)"
      using ih r(2) by simp
    have "[Suc (seq w) ..< Suc (seq (save_all L cs w1))]
        = Suc (seq w) # [Suc (Suc (seq w)) ..< Suc (seq (save_all L cs w1))]"
      using le by (simp add: upt_conv_Cons)
    with ih r le show ?thesis by (simp add: step)
  qed
qed

lemma main_rows:
  "rows (snd (main L env w)) = rows w
   \<or> (\<exists>r. rows (snd (main L env w)) = rows w @ [r] \<and> row_id r = Suc (seq w)
         \<and> timestamp r = strftime L (clock w + latency env))"
  by (auto simp: main_def init_database_def analyze_content_with_llm_def
      split: sum.splits prod.splits dest!: save_commit_result)


text \<open>The \<^verbatim>\<open>try\<close> block of \<^verbatim>\<open>on_modified\<close>: an empty file ends it before the analysis, and
  \<^verbatim>\<open>save_expertise\<close> is reached only through a successful analysis.\<close>

lemma try_file_skip:
  assumes "read_file env path = Inr c" and "strip c = []"
  shows "snd (try_file keys save L env path w) = w\<lparr>opened := opened w @ [path]\<rparr>"
  using assms by (simp add: try_file_def Let_def)

lemma try_file_effect:
  assumes save: "\<And>u p a w0 res w1. save L u p a w0 = (res, w1) \<Longrightarrow>
      save_calls w1 = Suc (save_calls w0)
      \<and> (rows w1 = rows w0 \<or> (\<exists>r. rows w1 = rows w0 @ [r]))"
  shows "save_calls (snd (try_file keys save L env path w)) = save_calls w
         \<and> rows (snd (try_file keys save L env path w)) = rows w
       \<or> save_calls (snd (try_file keys save L env path w)) = Suc (save_calls w)
         \<and> (rows (snd (try_file keys save L env path w)) = rows w
            \<or> (\<exists>r. rows (snd (try_file keys save L env path w)) = rows w @ [r]))
         \<and> (\<exists>c a. read_file env path = Inr c \<and> strip c \<noteq> []
               \<and> fst (analyze_content_with_llm L env c w) = Inr a \<and> truthy L a)"
proof (cases "read_file env path")
  case (Inl e)
  then show ?thesis by (simp add: try_file_def Let_def)
next
  case (Inr c)
  show ?thesis
  proof (cases "strip c = []")
    case True
    with Inr show ?thesis by (simp add: try_file_def Let_def)
  next
    case False
    define w1 where "w1 = (w\<lparr>opened := opened w @ [path]\<rparr>)
        \<lparr>llm_calls := llm_calls w @ [c], clock := clock w + latency env\<rparr>"
    show ?thesis
    proof (cases "except_RequestException (llm_request L (post env))")
      case (Inl e)
      with Inr False show ?thesis
        by (simp add: try_file_def Let_def analyze_content_with_llm_def)
    next
      case a: (Inr a)
      show ?thesis
      proof (cases "truthy L a")
        case False
        with Inr \<open>strip c \<noteq> []\<close> a show ?thesis
          by (simp add: try_file_def Let_def analyze_content_with_llm_def)
      next
        case True
        show ?thesis
        proof (cases "eval_gets a keys")
          case (Inl e)
          with Inr \<open>strip c \<noteq> []\<close> a True show ?thesis
            by (simp add: try_file_def Let_def analyze_content_with_llm_def)
        next
          case g: (Inr u)
          show ?thesis
          proof (cases "getlogin env")
            case (Inl e)
            with Inr \<open>strip c \<noteq> []\<close> a True g show ?thesis
              by (simp add: try_file_def Let_def analyze_content_with_llm_def)
          next
            case l: (Inr login)
            obtain res w2 where s: "save L login path a w1 = (res, w2)"
              by (cases "save L login path a w1") auto
            have t: "snd (try_file keys save L env path w) = w2"
              using Inr \<open>strip c \<noteq> []\<close> a True g l s
              by (simp add: try_file_def Let_def analyze_content_with_llm_def w1_def)
            have "save_calls w2 = Suc (save_calls w)
                \<and> (rows w2 = rows w \<or> (\<exists>r. rows w2 = rows w @ [r]))"
              using save [OF s] by (simp add: w1_def)
            with t Inr \<open>strip c \<noteq> []\<close> a True show ?thesis
              by (simp add: analyze_content_with_llm_def)
          qed
        qed
      qed
    qed
  qed
qed

lemma save_search_result:
  assumes "save_expertise_search L u p a w0 = (res, w1)"
  shows "save_calls w1 = Suc (save_calls w0)
      \<and> (rows w1 = rows w0 \<or> (\<exists>r. rows w1 = rows w0 @ [r]))"
  using save_search_effect [of L u p a w0] assms by simp

lemma save_engine_result:
  assumes "save_expertise_engine L u p a w0 = (res, w1)"
  shows "save_calls w1 = Suc (save_calls w0)
      \<and> (rows w1 = rows w0 \<or> (\<exists>r. rows w1 = rows w0 @ [r]))"
  using save_engine_effect [of L u p a w0] assms by simp


lemma search_skips_hidden_file:
  "startswith (basename (src_path ev)) ''.'' \<Longrightarrow> on_modified_search L env ev w = w"
  by (simp add: on_modified_search_def)

lemma strip_sample [simp]: "strip ''def foo(): pass'' = ''def foo(): pass''"
  by (simp add: strip_def is_space_def)

text \<open>Facts about single steps of \<^verbatim>\<open>save_expertise\<close>.\<close>

lemma execute_insert_ok:
  "seq w < max_rowid \<Longrightarrow>
     execute_insert mk w = Inr (w\<lparr>rows := rows w @ [mk (Suc (seq w))], seq := Suc (seq w)\<rparr>)"
  by (simp add: execute_insert_def)

lemma search_insert_string_field:
  assumes "map_of kvs ''primary_technologies'' = Some (JStr s)"
    and "map_of kvs ''supporting_libraries'' = None"
  shows "search_insert L u p (JDict kvs) w = Inl (if db_ok w then TypeError else OperationalError)"
  using assms by (simp add: search_insert_def get_default_def)

lemma eval_gets_dict: "eval_gets (JDict kvs) ks = Inr ()"
  by (induction ks) auto

text \<open>A value that is not a dictionary has no \<^verbatim>\<open>get\<close>: the first \<^verbatim>\<open>print\<close> line of a
  watcher, and the parameter tuple of \<^verbatim>\<open>save_expertise\<close>, raise \<^verbatim>\<open>AttributeError\<close>.\<close>

lemma eval_gets_non_dict: "\<not> is_dict a \<Longrightarrow> eval_gets a (k # ks) = Inl AttributeError"
  by (cases a) auto

lemma commit_insert_non_dict:
  "\<not> is_dict a \<Longrightarrow>
     commit_insert L u r h a w = Inl (if db_ok w then AttributeError else OperationalError)"
  by (cases a) (auto simp: commit_insert_def)

text \<open>When the analysis never returns a dictionary that is true, the handlers and the hook
  leave the table as it is.\<close>

lemma try_file_unchanged:
  assumes "\<And>a. except_RequestException (llm_request L (post env)) = Inr a \<Longrightarrow>
      truthy L a \<Longrightarrow> \<not> is_dict a"
  shows "rows (snd (try_file (k # ks) save L env path w)) = rows w
       \<and> save_calls (snd (try_file (k # ks) save L env path w)) = save_calls w"
proof (cases "except_RequestException (llm_request L (post env))")
  case (Inl e)
  then show ?thesis
    by (simp add: try_file_def Let_def analyze_content_with_llm_def split: sum.splits)
next
  case (Inr a)
  show ?thesis
  proof (cases "truthy L a")
    case True
    with Inr assms have "\<not> is_dict a" by simp
    then have "eval_gets a (k # ks) = Inl AttributeError"
      by (rule eval_gets_non_dict)
    with Inr True show ?thesis
      by (simp add: try_file_def Let_def analyze_content_with_llm_def split: sum.splits)
  next
    case False
    with Inr show ?thesis
      by (simp add: try_file_def Let_def analyze_content_with_llm_def split: sum.splits)
  qed
qed

lemma main_unchanged:
  assumes "\<And>a. except_RequestException (llm_request L (post env)) = Inr a \<Longrightarrow>
      truthy L a \<Longrightarrow> \<not> is_dict a"
  shows "rows (snd (main L env w)) = rows w"
proof (cases "except_RequestException (llm_request L (post env))")
  case (Inl e)
  then show ?thesis
    by (simp add: main_def init_database_def analyze_content_with_llm_def
        split: sum.splits prod.splits)
next
  case (Inr a)
  show ?thesis
  proof (cases "truthy L a")
    case True
    with Inr assms have "\<not> is_dict a" by simp
    then have "\<And>u r h w1 res w2. save_expertise_commit_analyzer L u r h a w1 = (res, w2)
        \<Longrightarrow> rows w2 = rows w1"
      by (auto simp: save_expertise_commit_analyzer_def Let_def commit_insert_non_dict)
    with Inr True show ?thesis
      by (auto simp: main_def init_database_def analyze_content_with_llm_def
          split: sum.splits prod.splits)
  next
    case False
    with Inr show ?thesis
      by (simp add: main_def init_database_def analyze_content_with_llm_def
          split: sum.splits prod.splits)
  qed
qed

text \<open>
  What holds of both handlers for every event: \<^verbatim>\<open>save_expertise\<close> is called not at all or
  once, and only after the file was read, its stripped content was not empty and the
  analysis returned a value that is true; then the table is unchanged or one row longer. A
  file whose stripped content is empty causes no call of the analysis and none of
  \<^verbatim>\<open>save_expertise\<close>; in \<^verbatim>\<open>search.py\<close> a hidden file changes nothing.
\<close>

lemma on_modified_saves_at_most_once:
  "(save_calls (on_modified_search L env ev w) = save_calls w
      \<and> rows (on_modified_search L env ev w) = rows w
    \<or> save_calls (on_modified_search L env ev w) = Suc (save_calls w)
      \<and> (rows (on_modified_search L env ev w) = rows w
         \<or> (\<exists>r. rows (on_modified_search L env ev w) = rows w @ [r]))
      \<and> (\<exists>c a. read_file env (src_path ev) = Inr c \<and> strip c \<noteq> []
            \<and> fst (analyze_content_with_llm L env c w) = Inr a \<and> truthy L a))
   \<and> (save_calls (on_modified_engine L env ev w) = save_calls w
      \<and> rows (on_modified_engine L env ev w) = rows w
    \<or> save_calls (on_modified_engine L env ev w) = Suc (save_calls w)
      \<and> (rows (on_modified_engine L env ev w) = rows w
         \<or> (\<exists>r. rows (on_modified_engine L env ev w) = rows w @ [r]))
      \<and> (\<exists>c a. read_file env (src_path ev) = Inr c \<and> strip c \<noteq> []
            \<and> fst (analyze_content_with_llm L env c w) = Inr a \<and> truthy L a))
   \<and> ((\<exists>c. read_file env (src_path ev) = Inr c \<and> strip c = []) \<longrightarrow>
        llm_calls (on_modified_search L env ev w) = llm_calls w
        \<and> save_calls (on_modified_search L env ev w) = save_calls w
        \<and> rows (on_modified_search L env ev w) = rows w
        \<and> llm_calls (on_modified_engine L env ev w) = llm_calls w
        \<and> save_calls (on_modified_engine L env ev w) = save_calls w
        \<and> rows (on_modified_engine L env ev w) = rows w)
   \<and> (startswith (basename (src_path ev)) ''.'' \<longrightarrow> on_modified_search L env ev w = w)"
proof -
  note s = try_file_effect [of save_expertise_search L canonical_keys env "src_path ev" w,
      OF save_search_result]
  note e = try_file_effect [of save_expertise_engine L legacy_keys env "src_path ev" w,
      OF save_engine_result]
  have 1: "save_calls (on_modified_search L env ev w) = save_calls w
      \<and> rows (on_modified_search L env ev w) = rows w
    \<or> save_calls (on_modified_search L env ev w) = Suc (save_calls w)
      \<and> (rows (on_modified_search L env ev w) = rows w
         \<or> (\<exists>r. rows (on_modified_search L env ev w) = rows w @ [r]))
      \<and> (\<exists>c a. read_file env (src_path ev) = Inr c \<and> strip c \<noteq> []
            \<and> fst (analyze_content_with_llm L env c w) = Inr a \<and> truthy L a)"
    using s by (simp add: on_modified_search_def)
  have 2: "save_calls (on_modified_engine L env ev w) = save_calls w
      \<and> rows (on_modified_engine L env ev w) = rows w
    \<or> save_calls (on_modified_engine L env ev w) = Suc (save_calls w)
      \<and> (rows (on_modified_engine L env ev w) = rows w
         \<or> (\<exists>r. rows (on_modified_engine L env ev w) = rows w @ [r]))
      \<and> (\<exists>c a. read_file env (src_path ev) = Inr c \<and> strip c \<noteq> []
            \<and> fst (analyze_content_with_llm L env c w) = Inr a \<and> truthy L a)"
    using e by (simp add: on_modified_engine_def)
  have 3: "(\<exists>c. read_file env (src_path ev) = Inr c \<and> strip c = []) \<longrightarrow>
        llm_calls (on_modified_search L env ev w) = llm_calls w
        \<and> save_calls (on_modified_search L env ev w) = save_calls w
        \<and> rows (on_modified_search L env ev w) = rows w
        \<and> llm_calls (on_modified_engine L env ev w) = llm_calls w
        \<and> save_calls (on_modified_engine L env ev w) = save_calls w
        \<and> rows (on_modified_engine L env ev w) = rows w"
    by (auto simp: on_modified_search_def on_modified_engine_def try_file_skip)
  have 4: "startswith (basename (src_path ev)) ''.'' \<longrightarrow> on_modified_search L env ev w = w"
    by (simp add: on_modified_search_def)
  from 1 2 3 4 show ?thesis by blast
qed

section \<open>Claims\<close>

text \<open>
  C1, as the code has it. For a payload string that is not valid JSON, or that parses to a
  value other than a JSON object, or to the empty object, no record is appended: not by
  either watcher, which do not reach \<^verbatim>\<open>save_expertise\<close>, and not by the commit hook. The
  analysis has no error value for a payload that is not valid JSON: in the watchers
  \<^verbatim>\<open>analyze_content_with_llm\<close> raises \<^verbatim>\<open>JSONDecodeError\<close>, which the handler's
  \<^verbatim>\<open>except Exception\<close> catches. A payload that parses to a non-empty object with none of the
  expected keys is not malformed for the code: when the event is otherwise processed and
  the database is in order, \<^verbatim>\<open>search.py\<close> and the commit hook append one record with the
  list fields defaulted to \<^verbatim>\<open>[]\<close> and the summary to the empty string.
\<close>

theorem malformed_payload_outcome:
  assumes "post henv = Some resp" and "post wenv = Some resp"
    and "status_code resp < 400 \<or> 600 \<le> status_code resp"
    and "json_body resp = Some (JDict kvs)"
    and "map_of kvs ''response'' = Some (JStr s)"
  shows "(loads L s = Inl JSONDecodeError \<longrightarrow>
            fst (analyze_content_with_llm L wenv content fw) = Inl JSONDecodeError)
       \<and> ((\<exists>e. loads L s = Inl e)
            \<or> (\<exists>v. loads L s = Inr v \<and> (v = JDict [] \<or> \<not> is_dict v)) \<longrightarrow>
            rows (on_modified_search L wenv ev fw) = rows fw
          \<and> save_calls (on_modified_search L wenv ev fw) = save_calls fw
          \<and> rows (on_modified_engine L wenv ev fw) = rows fw
          \<and> save_calls (on_modified_engine L wenv ev fw) = save_calls fw
          \<and> rows (snd (main L henv w)) = rows w)
       \<and> (\<forall>p c login.
            loads L s = Inr (JDict p) \<and> p \<noteq> []
            \<and> (\<forall>k \<in> set canonical_keys. map_of p k = None)
            \<and> is_directory ev = False \<and> startswith (basename (src_path ev)) ''.'' = False
            \<and> read_file wenv (src_path ev) = Inr c \<and> strip c \<noteq> []
            \<and> getlogin wenv = Inr login
            \<and> db_ok fw \<and> table_exists fw \<and> seq fw < max_rowid \<longrightarrow>
            rows (on_modified_search L wenv ev fw) = rows fw @
              [\<lparr>row_id = Suc (seq fw), user_id = login,
                timestamp = strftime L (clock fw + latency wenv),
                file_path = src_path ev, technologies = dumps L (JList []),
                core_concepts = dumps L (JList []), summary = SqlText []\<rparr>])
       \<and> (\<forall>p diff msg u t.
            loads L s = Inr (JDict p) \<and> p \<noteq> []
            \<and> (\<forall>k \<in> set canonical_keys. map_of p k = None)
            \<and> git_diff henv = Inr diff \<and> commit_msg_file henv = Inr msg
            \<and> git_user_name henv = Inr u \<and> git_toplevel henv = Inr t
            \<and> strip diff \<noteq> [] \<and> strip msg \<noteq> []
            \<and> db_ok w \<and> seq w < max_rowid \<longrightarrow>
            fst (main L henv w) = Exit 0
          \<and> rows (snd (main L henv w)) = rows w @
              [\<lparr>row_id = Suc (seq w), user_id = strip u,
                timestamp = strftime L (clock w + latency henv),
                repo_name = SqlText (basename (strip t)),
                commit_hash = ''pre-commit-analysis'',
                primary_technologies = dumps L (JList []),
                supporting_libraries = dumps L (JList []),
                key_patterns_and_concepts = dumps L (JList []),
                inferred_skills = dumps L (JList []),
                analysis_summary = SqlText []\<rparr>])"
proof -
  have rh: "llm_request L (post henv) = loads L s"
    using assms(1,3,4,5) by (auto simp: llm_request_def get_default_def)
  have rw: "llm_request L (post wenv) = loads L s"
    using assms(2,3,4,5) by (auto simp: llm_request_def get_default_def)
  have 1: "loads L s = Inl JSONDecodeError \<longrightarrow>
            fst (analyze_content_with_llm L wenv content fw) = Inl JSONDecodeError"
    by (simp add: analyze_content_with_llm_def rw except_RequestException_def)
  have 2: "(\<exists>e. loads L s = Inl e)
            \<or> (\<exists>v. loads L s = Inr v \<and> (v = JDict [] \<or> \<not> is_dict v)) \<longrightarrow>
            rows (on_modified_search L wenv ev fw) = rows fw
          \<and> save_calls (on_modified_search L wenv ev fw) = save_calls fw
          \<and> rows (on_modified_engine L wenv ev fw) = rows fw
          \<and> save_calls (on_modified_engine L wenv ev fw) = save_calls fw
          \<and> rows (snd (main L henv w)) = rows w"
  proof
    assume d: "(\<exists>e. loads L s = Inl e)
        \<or> (\<exists>v. loads L s = Inr v \<and> (v = JDict [] \<or> \<not> is_dict v))"
    have k: "\<And>a. except_RequestException (loads L s) = Inr a \<Longrightarrow> truthy L a \<Longrightarrow> \<not> is_dict a"
      using d by (auto simp: except_RequestException_def split: if_splits)
    note s = try_file_unchanged [of L wenv, unfolded rw, OF k]
    note m = main_unchanged [of L henv, unfolded rh, OF k]
    show "rows (on_modified_search L wenv ev fw) = rows fw
          \<and> save_calls (on_modified_search L wenv ev fw) = save_calls fw
          \<and> rows (on_modified_engine L wenv ev fw) = rows fw
          \<and> save_calls (on_modified_engine L wenv ev fw) = save_calls fw
          \<and> rows (snd (main L henv w)) = rows w"
      using s m
      by (simp add: on_modified_search_def on_modified_engine_def canonical_keys_def
          legacy_keys_def)
  qed
  have 3: "\<forall>p c login.
            loads L s = Inr (JDict p) \<and> p \<noteq> []
            \<and> (\<forall>k \<in> set canonical_keys. map_of p k = None)
            \<and> is_directory ev = False \<and> startswith (basename (src_path ev)) ''.'' = False
            \<and> read_file wenv (src_path ev) = Inr c \<and> strip c \<noteq> []
            \<and> getlogin wenv = Inr login
            \<and> db_ok fw \<and> table_exists fw \<and> seq fw < max_rowid \<longrightarrow>
            rows (on_modified_search L wenv ev fw) = rows fw @
              [\<lparr>row_id = Suc (seq fw), user_id = login,
                timestamp = strftime L (clock fw + latency wenv),
                file_path = src_path ev, technologies = dumps L (JList []),
                core_concepts = dumps L (JList []), summary = SqlText []\<rparr>]"
    by (simp add: on_modified_search_def try_file_def Let_def analyze_content_with_llm_def rw
        except_RequestException_def eval_gets_dict save_expertise_search_def
        search_insert_def canonical_keys_def get_default_def execute_insert_ok)
  have 4: "\<forall>p diff msg u t.
            loads L s = Inr (JDict p) \<and> p \<noteq> []
            \<and> (\<forall>k \<in> set canonical_keys. map_of p k = None)
            \<and> git_diff henv = Inr diff \<and> commit_msg_file henv = Inr msg
            \<and> git_user_name henv = Inr u \<and> git_toplevel henv = Inr t
            \<and> strip diff \<noteq> [] \<and> strip msg \<noteq> []
            \<and> db_ok w \<and> seq w < max_rowid \<longrightarrow>
            fst (main L henv w) = Exit 0
          \<and> rows (snd (main L henv w)) = rows w @
              [\<lparr>row_id = Suc (seq w), user_id = strip u,
                timestamp = strftime L (clock w + latency henv),
                repo_name = SqlText (basename (strip t)),
                commit_hash = ''pre-commit-analysis'',
                primary_technologies = dumps L (JList []),
                supporting_libraries = dumps L (JList []),
                key_patterns_and_concepts = dumps L (JList []),
                inferred_skills = dumps L (JList []),
                analysis_summary = SqlText []\<rparr>]"
    by (simp add: main_def init_database_def get_git_info_def analyze_content_with_llm_def rh
        except_RequestException_def save_expertise_commit_analyzer_def Let_def
        commit_insert_def canonical_keys_def get_default_def execute_insert_ok)
  from 1 2 3 4 show ?thesis by blast
qed

theorem malformed_payload_outcome_witness:
  \<open>post (hook_sample (Some (reply ''not json''))) = Some (reply ''not json'')
   \<and> post (watch_sample (Some (reply ''not json''))) = Some (reply ''not json'')
   \<and> json_body (reply ''not json'') = Some (JDict [(''response'', JStr ''not json'')])
   \<and> loads excerpt_lib ''not json'' = Inl JSONDecodeError
   \<and> fst (analyze_content_with_llm excerpt_lib (watch_sample (Some (reply ''not json'')))
          ''def foo(): pass'' (fresh :: file_row world)) = Inl JSONDecodeError
   \<and> rows (on_modified_search excerpt_lib (watch_sample (Some (reply ''not json'')))
          \<lparr>is_directory = False, src_path = ''/w/a.py''\<rparr> fresh) = []
   \<and> rows (on_modified_engine excerpt_lib (watch_sample (Some (reply ''not json'')))
          \<lparr>is_directory = False, src_path = ''/w/a.py''\<rparr> fresh) = []
   \<and> rows (snd (main excerpt_lib (hook_sample (Some (reply ''not json''))) fresh)) = []
   \<and> loads excerpt_lib ''["Python"]'' = Inr (JList [JStr ''Python''])
   \<and> is_dict (JList [JStr ''Python'']) = False
   \<and> rows (on_modified_search excerpt_lib (watch_sample (Some (reply ''["Python"]'')))
          \<lparr>is_directory = False, src_path = ''/w/a.py''\<rparr> fresh) = []
   \<and> rows (snd (main excerpt_lib (hook_sample (Some (reply ''["Python"]''))) fresh)) = []
   \<and> loads excerpt_lib ''{"language": "Python"}'' = Inr (JDict [(''language'', JStr ''Python'')])
   \<and> map (map_of [(''language'', JStr ''Python'')]) canonical_keys
       = [None, None, None, None, None]
   \<and> rows (on_modified_search excerpt_lib
          (watch_sample (Some (reply ''{"language": "Python"}'')))
          \<lparr>is_directory = False, src_path = ''/w/a.py''\<rparr> fresh)
      = [\<lparr>row_id = 1, user_id = ''alice'', timestamp = ''1970-01-01 00:00:05'',
          file_path = ''/w/a.py'', technologies = ''[]'', core_concepts = ''[]'',
          summary = SqlText []\<rparr>]
   \<and> main excerpt_lib (hook_sample (Some (reply ''{"language": "Python"}''))) fresh
      = (Exit 0,
         fresh\<lparr>clock := 5, save_calls := 1, seq := 1,
           llm_calls := [analysis_content ''Add x'' ''+x = 1''],
           rows := [\<lparr>row_id = 1, user_id = ''alice'', timestamp = ''1970-01-01 00:00:05'',
             repo_name = SqlText ''proj'', commit_hash = ''pre-commit-analysis'',
             primary_technologies = ''[]'', supporting_libraries = ''[]'',
             key_patterns_and_concepts = ''[]'', inferred_skills = ''[]'',
             analysis_summary = SqlText []\<rparr>]\<rparr>)\<close>
  using malformed_payload_outcome
    [where henv = \<open>hook_sample (Some (reply ''not json''))\<close>
       and wenv = \<open>watch_sample (Some (reply ''not json''))\<close>
       and resp = \<open>reply ''not json''\<close>
       and kvs = \<open>[(''response'', JStr ''not json'')]\<close> and s = \<open>''not json''\<close>
       and L = excerpt_lib and content = \<open>''def foo(): pass''\<close> and fw = fresh and w = fresh
       and ev = "\<lparr>is_directory = False, src_path = ''/w/a.py''\<rparr>"]
    malformed_payload_outcome
    [where henv = \<open>hook_sample (Some (reply ''["Python"]''))\<close>
       and wenv = \<open>watch_sample (Some (reply ''["Python"]''))\<close>
       and resp = \<open>reply ''["Python"]''\<close>
       and kvs = \<open>[(''response'', JStr ''["Python"]'')]\<close> and s = \<open>''["Python"]''\<close>
       and L = excerpt_lib and content = \<open>''def foo(): pass''\<close> and fw = fresh and w = fresh
       and ev = "\<lparr>is_directory = False, src_path = ''/w/a.py''\<rparr>"]
    malformed_payload_outcome
    [where henv = \<open>hook_sample (Some (reply ''{"language": "Python"}''))\<close>
       and wenv = \<open>watch_sample (Some (reply ''{"language": "Python"}''))\<close>
       and resp = \<open>reply ''{"language": "Python"}''\<close>
       and kvs = \<open>[(''response'', JStr ''{"language": "Python"}'')]\<close>
       and s = \<open>''{"language": "Python"}''\<close>
       and L = excerpt_lib and content = \<open>''def foo(): pass''\<close> and fw = fresh and w = fresh
       and ev = "\<lparr>is_directory = False, src_path = ''/w/a.py''\<rparr>"]
  by (simp add: watch_sample_def hook_sample_def reply_def excerpt_lib_def fresh_def
      canonical_keys_def legacy_keys_def max_rowid_def basename_def strip_def is_space_def
      on_modified_search_def on_modified_engine_def try_file_def Let_def main_def
      init_database_def get_git_info_def analyze_content_with_llm_def llm_request_def
      except_RequestException_def get_default_def save_expertise_search_def
      search_insert_def save_expertise_commit_analyzer_def commit_insert_def
      execute_insert_def)

text \<open>
  C1, as stated, fails: for the payload \<^verbatim>\<open>not json\<close> the analysis of \<^verbatim>\<open>search.py\<close> raises
  instead of returning an error, and for the payload \<^verbatim>\<open>{"language": "Python"}\<close>, which has
  none of the expected keys, \<^verbatim>\<open>search.py\<close> appends a row with defaulted fields.
\<close>

theorem malformed_payload_not_error_value:
  \<open>fst (analyze_content_with_llm excerpt_lib (watch_sample (Some (reply ''not json'')))
          ''def foo(): pass'' (fresh :: file_row world)) = Inl JSONDecodeError
   \<and> map technologies (rows (on_modified_search excerpt_lib
          (watch_sample (Some (reply ''{"language": "Python"}'')))
          \<lparr>is_directory = False, src_path = ''/w/a.py''\<rparr> fresh)) = [''[]'']\<close>
  by (simp add: on_modified_search_def try_file_def Let_def
      watch_sample_def reply_def fresh_def excerpt_lib_def basename_def
      analyze_content_with_llm_def llm_request_def except_RequestException_def
      canonical_keys_def save_expertise_search_def search_insert_def
      execute_insert_def max_rowid_def get_default_def)

text \<open>
  C2. In one-shot mode the process is meant to exit with code 0 on every outcome, the git
  metadata being unavailable included. It does not: when a git command fails,
  \<^verbatim>\<open>get_git_info\<close> returns four \<^verbatim>\<open>None\<close>s, \<^verbatim>\<open>diff.strip()\<close> raises \<^verbatim>\<open>AttributeError\<close>,
  nobody catches it and the interpreter exits with status 1.
\<close>

theorem main_without_git_metadata:
  "fst (main excerpt_lib ((hook_sample None)\<lparr>git_diff := Inl CalledProcessError\<rparr>) fresh)
     = Uncaught AttributeError
   \<and> exit_code
       (fst (main excerpt_lib ((hook_sample None)\<lparr>git_diff := Inl CalledProcessError\<rparr>) fresh))
     = 1"
  by (simp add: main_def init_database_def get_git_info_def hook_sample_def fresh_def)

text \<open>
  C3, as the code has it. \<^verbatim>\<open>engine.py\<close> stores the payload's \<^verbatim>\<open>technologies\<close> and
  \<^verbatim>\<open>core_concepts\<close> (each \<^verbatim>\<open>[]\<close> when absent) as they are in its columns of the same names.
  \<^verbatim>\<open>search.py\<close> stores in these two columns the concatenations
  \<^verbatim>\<open>primary_technologies + supporting_libraries\<close> and
  \<^verbatim>\<open>key_patterns_and_concepts + inferred_skills\<close> of the payload (each \<^verbatim>\<open>[]\<close> when absent) and
  does not read the two older keys.
\<close>

theorem legacy_fields_by_store:
  assumes "db_ok w" and "table_exists w" and "seq w < max_rowid"
  shows "(bind_param (get_default kvs ''summary'' (JStr [])) = Inr sv \<longrightarrow>
            save_expertise_engine L u p (JDict kvs) w =
              (Inr (),
               w\<lparr>save_calls := Suc (save_calls w),
                  rows := rows w @
                    [\<lparr>row_id = Suc (seq w), user_id = u, timestamp = strftime L (clock w),
                      file_path = p,
                      technologies = dumps L (get_default kvs ''technologies'' (JList [])),
                      core_concepts = dumps L (get_default kvs ''core_concepts'' (JList [])),
                      summary = stored_text L sv\<rparr>],
                  seq := Suc (seq w)\<rparr>))
       \<and> (py_add L (get_default kvs ''primary_technologies'' (JList []))
                 (get_default kvs ''supporting_libraries'' (JList [])) = Inr tech
          \<and> py_add L (get_default kvs ''key_patterns_and_concepts'' (JList []))
                 (get_default kvs ''inferred_skills'' (JList [])) = Inr conc
          \<and> bind_param (get_default kvs ''analysis_summary'' (JStr [])) = Inr sv' \<longrightarrow>
            save_expertise_search L u p (JDict kvs) w =
              (Inr (),
               w\<lparr>save_calls := Suc (save_calls w),
                  rows := rows w @
                    [\<lparr>row_id = Suc (seq w), user_id = u, timestamp = strftime L (clock w),
                      file_path = p, technologies = dumps L tech,
                      core_concepts = dumps L conc, summary = stored_text L sv'\<rparr>],
                  seq := Suc (seq w)\<rparr>))"
  using assms
  by (simp add: save_expertise_engine_def engine_insert_def save_expertise_search_def
      search_insert_def Let_def execute_insert_ok)

theorem legacy_fields_by_store_witness:
  \<open>db_ok (fresh :: file_row world) \<and> table_exists (fresh :: file_row world)
   \<and> seq (fresh :: file_row world) < max_rowid
   \<and> bind_param (get_default [(''technologies'', JList [JStr ''Python''])] ''summary'' (JStr []))
       = Inr (SqlText [])
   \<and> py_add excerpt_lib (get_default [(''technologies'', JList [JStr ''Python''])]
               ''primary_technologies'' (JList []))
            (get_default [(''technologies'', JList [JStr ''Python''])]
               ''supporting_libraries'' (JList [])) = Inr (JList [])
   \<and> map technologies (rows (snd (save_expertise_engine excerpt_lib ''alice'' ''/w/a.py''
          (JDict [(''technologies'', JList [JStr ''Python''])]) fresh))) = [''["Python"]'']
   \<and> map technologies (rows (snd (save_expertise_search excerpt_lib ''alice'' ''/w/a.py''
          (JDict [(''technologies'', JList [JStr ''Python''])]) fresh))) = [''[]'']\<close>
  using legacy_fields_by_store
    [where w = fresh and kvs = \<open>[(''technologies'', JList [JStr ''Python''])]\<close>
       and sv = \<open>SqlText []\<close> and sv' = \<open>SqlText []\<close> and tech = \<open>JList []\<close>
       and conc = \<open>JList []\<close> and L = excerpt_lib and u = \<open>''alice''\<close> and p = \<open>''/w/a.py''\<close>]
  by (simp add: fresh_def max_rowid_def get_default_def excerpt_lib_def)

text \<open>
  C3, as stated, fails: for a payload with the older keys, \<^verbatim>\<open>technologies\<close> being
  \<^verbatim>\<open>["Python"]\<close>, \<^verbatim>\<open>search.py\<close> stores \<^verbatim>\<open>[]\<close> in its column \<^verbatim>\<open>technologies\<close> and
  \<^verbatim>\<open>commit_analyzer.py\<close> stores \<^verbatim>\<open>[]\<close> in \<^verbatim>\<open>primary_technologies\<close>, not the encoding
  \<^verbatim>\<open>["Python"]\<close> of the payload's list.
\<close>

theorem legacy_fields_not_mapped:
  \<open>map technologies (rows (snd (save_expertise_search excerpt_lib ''alice'' ''/w/a.py''
        (JDict [(''technologies'', JList [JStr ''Python'']), (''core_concepts'', JList []),
                (''summary'', JStr ''Defines a function.'')]) fresh))) = [''[]'']
   \<and> map primary_technologies (rows (snd (save_expertise_commit_analyzer excerpt_lib
        (Some ''alice'') (Some ''proj'') ''pre-commit-analysis''
        (JDict [(''technologies'', JList [JStr ''Python'']), (''core_concepts'', JList []),
                (''summary'', JStr ''Defines a function.'')]) fresh))) = [''[]'']
   \<and> dumps excerpt_lib (JList [JStr ''Python'']) = ''["Python"]''\<close>
  by (simp add: save_expertise_search_def search_insert_def save_expertise_commit_analyzer_def
      commit_insert_def Let_def execute_insert_def max_rowid_def get_default_def
      fresh_def excerpt_lib_def)

text \<open>
  C4. For a payload that is a JSON object, \<^verbatim>\<open>save_expertise\<close> of \<^verbatim>\<open>commit_analyzer.py\<close>
  appends the row made of \<^verbatim>\<open>payload.get(key, default)\<close> for the five keys: a list field that
  is absent is stored as the encoding of \<^verbatim>\<open>[]\<close>, an absent summary as the empty string.
  Two payloads that agree on the five keys give the same result, in \<^verbatim>\<open>commit_analyzer.py\<close>
  and in \<^verbatim>\<open>search.py\<close>: other fields are ignored. In \<^verbatim>\<open>search.py\<close> a payload with none of
  the five keys is stored with \<^verbatim>\<open>[]\<close> in both list columns and the empty summary.
\<close>

theorem save_defaults_missing_fields:
  assumes "db_ok w" and "table_exists w" and "seq w < max_rowid"
    and "db_ok fw" and "table_exists fw" and "seq fw < max_rowid"
  shows "(bind_param (get_default kvs ''analysis_summary'' (JStr [])) = Inr sv \<longrightarrow>
            save_expertise_commit_analyzer L (Some u) repo h (JDict kvs) w =
              (Inr (),
               w\<lparr>save_calls := Suc (save_calls w),
                  rows := rows w @
                    [\<lparr>row_id = Suc (seq w), user_id = u, timestamp = strftime L (clock w),
                      repo_name = bind_str repo, commit_hash = h,
                      primary_technologies =
                        dumps L (get_default kvs ''primary_technologies'' (JList [])),
                      supporting_libraries =
                        dumps L (get_default kvs ''supporting_libraries'' (JList [])),
                      key_patterns_and_concepts =
                        dumps L (get_default kvs ''key_patterns_and_concepts'' (JList [])),
                      inferred_skills =
                        dumps L (get_default kvs ''inferred_skills'' (JList [])),
                      analysis_summary = stored_text L sv\<rparr>],
                  seq := Suc (seq w)\<rparr>))
       \<and> (\<forall>k d. map_of kvs k = None \<longrightarrow> get_default kvs k d = d)
       \<and> bind_param (JStr []) = Inr (SqlText [])
       \<and> stored_text L (SqlText []) = SqlText []
       \<and> ((\<forall>k \<in> set canonical_keys. map_of kvs' k = map_of kvs k) \<longrightarrow>
            save_expertise_commit_analyzer L user repo h (JDict kvs') w
              = save_expertise_commit_analyzer L user repo h (JDict kvs) w
          \<and> save_expertise_search L u p (JDict kvs') fw
              = save_expertise_search L u p (JDict kvs) fw)
       \<and> ((\<forall>k \<in> set canonical_keys. map_of kvs k = None) \<longrightarrow>
            save_expertise_search L u p (JDict kvs) fw =
              (Inr (),
               fw\<lparr>save_calls := Suc (save_calls fw),
                   rows := rows fw @
                     [\<lparr>row_id = Suc (seq fw), user_id = u, timestamp = strftime L (clock fw),
                       file_path = p, technologies = dumps L (JList []),
                       core_concepts = dumps L (JList []), summary = SqlText []\<rparr>],
                   seq := Suc (seq fw)\<rparr>))"
proof -
  have a: "bind_param (get_default kvs ''analysis_summary'' (JStr [])) = Inr sv \<longrightarrow>
            save_expertise_commit_analyzer L (Some u) repo h (JDict kvs) w =
              (Inr (),
               w\<lparr>save_calls := Suc (save_calls w),
                  rows := rows w @
                    [\<lparr>row_id = Suc (seq w), user_id = u, timestamp = strftime L (clock w),
                      repo_name = bind_str repo, commit_hash = h,
                      primary_technologies =
                        dumps L (get_default kvs ''primary_technologies'' (JList [])),
                      supporting_libraries =
                        dumps L (get_default kvs ''supporting_libraries'' (JList [])),
                      key_patterns_and_concepts =
                        dumps L (get_default kvs ''key_patterns_and_concepts'' (JList [])),
                      inferred_skills =
                        dumps L (get_default kvs ''inferred_skills'' (JList [])),
                      analysis_summary = stored_text L sv\<rparr>],
                  seq := Suc (seq w)\<rparr>)"
    using assms(1-3)
    by (simp add: save_expertise_commit_analyzer_def commit_insert_def Let_def
        execute_insert_ok)
  have b: "\<forall>k d. map_of kvs k = None \<longrightarrow> get_default kvs k d = d"
    by (simp add: get_default_def)
  have c: "(\<forall>k \<in> set canonical_keys. map_of kvs' k = map_of kvs k) \<longrightarrow>
            save_expertise_commit_analyzer L user repo h (JDict kvs') w
              = save_expertise_commit_analyzer L user repo h (JDict kvs) w
          \<and> save_expertise_search L u p (JDict kvs') fw
              = save_expertise_search L u p (JDict kvs) fw"
  proof
    assume "\<forall>k \<in> set canonical_keys. map_of kvs' k = map_of kvs k"
    then have g: "\<And>d. get_default kvs' ''primary_technologies'' d
          = get_default kvs ''primary_technologies'' d"
      "\<And>d. get_default kvs' ''supporting_libraries'' d
          = get_default kvs ''supporting_libraries'' d"
      "\<And>d. get_default kvs' ''key_patterns_and_concepts'' d
          = get_default kvs ''key_patterns_and_concepts'' d"
      "\<And>d. get_default kvs' ''inferred_skills'' d = get_default kvs ''inferred_skills'' d"
      "\<And>d. get_default kvs' ''analysis_summary'' d = get_default kvs ''analysis_summary'' d"
      by (simp_all add: canonical_keys_def get_default_def)
    show "save_expertise_commit_analyzer L user repo h (JDict kvs') w
              = save_expertise_commit_analyzer L user repo h (JDict kvs) w
          \<and> save_expertise_search L u p (JDict kvs') fw
              = save_expertise_search L u p (JDict kvs) fw"
      by (simp add: save_expertise_commit_analyzer_def commit_insert_def
          save_expertise_search_def search_insert_def Let_def g)
  qed
  have d: "(\<forall>k \<in> set canonical_keys. map_of kvs k = None) \<longrightarrow>
            save_expertise_search L u p (JDict kvs) fw =
              (Inr (),
               fw\<lparr>save_calls := Suc (save_calls fw),
                   rows := rows fw @
                     [\<lparr>row_id = Suc (seq fw), user_id = u, timestamp = strftime L (clock fw),
                       file_path = p, technologies = dumps L (JList []),
                       core_concepts = dumps L (JList []), summary = SqlText []\<rparr>],
                   seq := Suc (seq fw)\<rparr>)"
    using assms(4-6)
    by (simp add: canonical_keys_def save_expertise_search_def search_insert_def Let_def
        execute_insert_ok get_default_def)
  from a b c d show ?thesis by simp
qed

theorem save_defaults_missing_fields_witness:
  \<open>db_ok (fresh :: commit_row world) \<and> table_exists (fresh :: commit_row world)
   \<and> seq (fresh :: commit_row world) < max_rowid
   \<and> bind_param (get_default [(''language'', JStr ''Python'')] ''analysis_summary'' (JStr []))
       = Inr (SqlText [])
   \<and> map (map_of [(''language'', JStr ''Python'')]) canonical_keys
       = [None, None, None, None, None]
   \<and> rows (snd (save_expertise_commit_analyzer excerpt_lib (Some ''alice'') (Some ''proj'')
        ''pre-commit-analysis'' (JDict [(''language'', JStr ''Python'')]) fresh))
      = [\<lparr>row_id = 1, user_id = ''alice'', timestamp = ''1970-01-01 00:00:00'',
          repo_name = SqlText ''proj'', commit_hash = ''pre-commit-analysis'',
          primary_technologies = ''[]'', supporting_libraries = ''[]'',
          key_patterns_and_concepts = ''[]'', inferred_skills = ''[]'',
          analysis_summary = SqlText []\<rparr>]
   \<and> save_expertise_commit_analyzer excerpt_lib (Some ''alice'') (Some ''proj'')
        ''pre-commit-analysis'' (JDict []) fresh
      = save_expertise_commit_analyzer excerpt_lib (Some ''alice'') (Some ''proj'')
        ''pre-commit-analysis'' (JDict [(''language'', JStr ''Python'')]) fresh
   \<and> rows (snd (save_expertise_search excerpt_lib ''alice'' ''/w/a.py''
        (JDict [(''language'', JStr ''Python'')]) fresh))
      = [\<lparr>row_id = 1, user_id = ''alice'', timestamp = ''1970-01-01 00:00:00'',
          file_path = ''/w/a.py'', technologies = ''[]'', core_concepts = ''[]'',
          summary = SqlText []\<rparr>]\<close>
  using save_defaults_missing_fields
    [where w = fresh and fw = fresh and kvs = \<open>[(''language'', JStr ''Python'')]\<close>
       and kvs' = \<open>[]\<close> and sv = \<open>SqlText []\<close> and L = excerpt_lib
       and u = \<open>''alice''\<close> and user = \<open>Some ''alice''\<close> and repo = \<open>Some ''proj''\<close>
       and h = \<open>''pre-commit-analysis''\<close> and p = \<open>''/w/a.py''\<close>]
  by (simp add: fresh_def max_rowid_def get_default_def excerpt_lib_def canonical_keys_def)

text \<open>
  C5. In one-shot mode, when the git metadata was read and the staged diff or the commit
  message strips to the empty string, the analysis is not called and no record is appended
  (\<^verbatim>\<open>save_expertise\<close> is not called); the process exits with code 0 once
  \<^verbatim>\<open>init_database\<close> has succeeded.
\<close>

theorem main_skips_empty_commit:
  assumes "git_diff env = Inr diff" and "commit_msg_file env = Inr msg"
    and "git_user_name env = Inr u" and "git_toplevel env = Inr t"
    and "strip diff = [] \<or> strip msg = []"
  shows "llm_calls (snd (main L env w)) = llm_calls w
       \<and> save_calls (snd (main L env w)) = save_calls w
       \<and> rows (snd (main L env w)) = rows w
       \<and> (db_ok w \<longrightarrow> fst (main L env w) = Exit 0)"
  using assms
  by (auto simp: main_def init_database_def get_git_info_def)

theorem main_skips_empty_commit_witness:
  "git_diff ((hook_sample None)\<lparr>commit_msg_file := Inr '' ''\<rparr>) = Inr ''+x = 1''
   \<and> commit_msg_file ((hook_sample None)\<lparr>commit_msg_file := Inr '' ''\<rparr>) = Inr '' ''
   \<and> strip ''+x = 1'' = ''+x = 1''
   \<and> strip '' '' = []
   \<and> db_ok (fresh :: commit_row world)
   \<and> llm_calls (snd (main excerpt_lib ((hook_sample None)\<lparr>commit_msg_file := Inr '' ''\<rparr>) fresh)) = []
   \<and> rows (snd (main excerpt_lib ((hook_sample None)\<lparr>commit_msg_file := Inr '' ''\<rparr>) fresh)) = []
   \<and> fst (main excerpt_lib ((hook_sample None)\<lparr>commit_msg_file := Inr '' ''\<rparr>) fresh) = Exit 0"
  using main_skips_empty_commit
    [of "(hook_sample None)\<lparr>commit_msg_file := Inr '' ''\<rparr>" "''+x = 1''" "'' ''"
        "''alice'' @ [CHR 0x0A]" "''/home/alice/proj'' @ [CHR 0x0A]" excerpt_lib fresh]
  by (simp add: hook_sample_def fresh_def strip_def is_space_def)

text \<open>
  C6. For every watch-mode event \<^verbatim>\<open>save_expertise\<close> is meant to be called at most once, and
  never when normalization skips the event, which it does for a hidden file. In
  \<^verbatim>\<open>engine.py\<close> the handler has no test on the file's name: for the hidden file
  \<^verbatim>\<open>/w/.env\<close> it calls \<^verbatim>\<open>save_expertise\<close> once and a row is appended.
\<close>

theorem engine_saves_for_hidden_file:
  \<open>startswith (basename ''/w/.env'') ''.''
   \<and> save_calls (on_modified_engine excerpt_lib
        (watch_sample (Some (reply ''{"technologies": ["Python"]}'')))
        \<lparr>is_directory = False, src_path = ''/w/.env''\<rparr> fresh) = 1
   \<and> map row_id (rows (on_modified_engine excerpt_lib
        (watch_sample (Some (reply ''{"technologies": ["Python"]}'')))
        \<lparr>is_directory = False, src_path = ''/w/.env''\<rparr> fresh)) = [1]
   \<and> map technologies (rows (on_modified_engine excerpt_lib
        (watch_sample (Some (reply ''{"technologies": ["Python"]}'')))
        \<lparr>is_directory = False, src_path = ''/w/.env''\<rparr> fresh)) = [''["Python"]'']\<close>
  by (simp add: on_modified_engine_def try_file_def Let_def
      watch_sample_def reply_def fresh_def excerpt_lib_def basename_def
      analyze_content_with_llm_def llm_request_def except_RequestException_def
      legacy_keys_def save_expertise_engine_def engine_insert_def
      execute_insert_def max_rowid_def get_default_def)

text \<open>
  C7. In watch mode a file whose base name starts with a dot is meant to be skipped: not
  read, not analysed, nothing appended. \<^verbatim>\<open>search.py\<close> does so, \<^verbatim>\<open>engine.py\<close> has no such
  test: for the file \<^verbatim>\<open>/w/.env\<close> it opens the file, sends its content to the backend and
  appends a row, where \<^verbatim>\<open>search.py\<close> on the same event changes nothing.
\<close>

theorem engine_reads_hidden_file:
  \<open>startswith (basename ''/w/.env'') ''.''
   \<and> opened (on_modified_engine excerpt_lib
        (watch_sample (Some (reply ''{"technologies": ["Python"]}'')))
        \<lparr>is_directory = False, src_path = ''/w/.env''\<rparr> fresh) = [''/w/.env'']
   \<and> llm_calls (on_modified_engine excerpt_lib
        (watch_sample (Some (reply ''{"technologies": ["Python"]}'')))
        \<lparr>is_directory = False, src_path = ''/w/.env''\<rparr> fresh) = [''def foo(): pass'']
   \<and> map file_path (rows (on_modified_engine excerpt_lib
        (watch_sample (Some (reply ''{"technologies": ["Python"]}'')))
        \<lparr>is_directory = False, src_path = ''/w/.env''\<rparr> fresh)) = [''/w/.env'']
   \<and> on_modified_search excerpt_lib
        (watch_sample (Some (reply ''{"technologies": ["Python"]}'')))
        \<lparr>is_directory = False, src_path = ''/w/.env''\<rparr> fresh = fresh\<close>
  by (simp add: on_modified_engine_def on_modified_search_def try_file_def Let_def
      watch_sample_def reply_def fresh_def excerpt_lib_def basename_def
      analyze_content_with_llm_def llm_request_def except_RequestException_def
      legacy_keys_def save_expertise_engine_def engine_insert_def
      execute_insert_def max_rowid_def get_default_def)

text \<open>
  C8. For any sequence of calls of \<^verbatim>\<open>save_expertise\<close> by a single writer, the ids of the rows
  appended are the consecutive numbers after the counter, as many as there are new rows:
  strictly increasing, without gaps. The row a call appends carries the clock reading of
  that call; in the commit hook this is the time after the backend has answered, not the
  time at which the analysis started.
\<close>

theorem appended_ids_consecutive:
  "map row_id (rows (save_all L cs w))
     = map row_id (rows w) @ [Suc (seq w) ..< Suc (seq (save_all L cs w))]
   \<and> length (rows (save_all L cs w)) = length (rows w) + (seq (save_all L cs w) - seq w)
   \<and> (rows (snd (save_expertise_commit_analyzer L user repo hash a w)) = rows w
      \<or> (\<exists>r. rows (snd (save_expertise_commit_analyzer L user repo hash a w)) = rows w @ [r]
            \<and> row_id r = Suc (seq w) \<and> timestamp r = strftime L (clock w)))
   \<and> (rows (snd (main L env w)) = rows w
      \<or> (\<exists>r. rows (snd (main L env w)) = rows w @ [r] \<and> row_id r = Suc (seq w)
            \<and> timestamp r = strftime L (clock w + latency env)))"
proof -
  have one: "rows (snd (save_expertise_commit_analyzer L user repo hash a w)) = rows w
      \<or> (\<exists>r. rows (snd (save_expertise_commit_analyzer L user repo hash a w)) = rows w @ [r]
            \<and> row_id r = Suc (seq w) \<and> timestamp r = strftime L (clock w))"
    using save_commit_effect [of L user repo hash a w] by blast
  show ?thesis
    using save_all_ids [of L cs w] one main_rows [of L env w] by simp
qed

theorem appended_ids_consecutive_witness:
  \<open>map row_id (rows (save_all excerpt_lib
        [(0, Some ''alice'', Some ''proj'', ''pre-commit-analysis'', JDict []),
         (5, None, Some ''proj'', ''pre-commit-analysis'', JDict []),
         (5, Some ''alice'', Some ''proj'', ''pre-commit-analysis'', JDict [])] fresh)) = [1, 2]
   \<and> map timestamp (rows (save_all excerpt_lib
        [(0, Some ''alice'', Some ''proj'', ''pre-commit-analysis'', JDict []),
         (5, None, Some ''proj'', ''pre-commit-analysis'', JDict []),
         (5, Some ''alice'', Some ''proj'', ''pre-commit-analysis'', JDict [])] fresh))
      = [''1970-01-01 00:00:00'', ''1970-01-01 00:00:05'']
   \<and> clock (fresh :: commit_row world) = 0
   \<and> map timestamp (rows (snd (main excerpt_lib
        (hook_sample (Some (reply ''{"language": "Python"}''))) fresh)))
      = [''1970-01-01 00:00:05'']\<close>
  using appended_ids_consecutive
    [where L = excerpt_lib and w = fresh
       and cs = \<open>[(0, Some ''alice'', Some ''proj'', ''pre-commit-analysis'', JDict []),
                  (5, None, Some ''proj'', ''pre-commit-analysis'', JDict []),
                  (5, Some ''alice'', Some ''proj'', ''pre-commit-analysis'', JDict [])]\<close>
       and env = \<open>hook_sample (Some (reply ''{"language": "Python"}''))\<close>]
  by (simp add: save_expertise_commit_analyzer_def commit_insert_def Let_def
      execute_insert_def max_rowid_def get_default_def fresh_def excerpt_lib_def
      main_def init_database_def get_git_info_def strip_def is_space_def basename_def
      hook_sample_def reply_def analyze_content_with_llm_def llm_request_def
      except_RequestException_def)

text \<open>
  C9. If the backend's envelope lacks the field \<^verbatim>\<open>response\<close>, or its payload string parses
  to the empty object \<^verbatim>\<open>{}\<close>, the analysis returns the empty dictionary, which is false in
  \<^verbatim>\<open>if analysis:\<close>: \<^verbatim>\<open>save_expertise\<close> is not called and no record is appended, in the
  commit hook and in both file watchers.
\<close>

theorem empty_payload_discarded:
  assumes "post henv = Some resp" and "post wenv = Some resp"
    and "status_code resp < 400 \<or> 600 \<le> status_code resp"
    and "json_body resp = Some (JDict kvs)"
    and "(map_of kvs ''response'' = None \<and> loads L ''{}'' = Inr (JDict []))
         \<or> (\<exists>s. map_of kvs ''response'' = Some (JStr s) \<and> loads L s = Inr (JDict []))"
  shows "fst (analyze_content_with_llm L henv content w) = Inr (JDict [])
       \<and> rows (snd (main L henv w)) = rows w
       \<and> save_calls (snd (main L henv w)) = save_calls w
       \<and> rows (on_modified_search L wenv ev fw) = rows fw
       \<and> save_calls (on_modified_search L wenv ev fw) = save_calls fw
       \<and> rows (on_modified_engine L wenv ev fw) = rows fw
       \<and> save_calls (on_modified_engine L wenv ev fw) = save_calls fw"
proof -
  have payload:
    "json_loads L (get_default kvs ''response'' (JStr ''{}'')) = Inr (JDict [])"
    using assms(5) by (auto simp: get_default_def)
  have h: "\<And>c w. analyze_content_with_llm L henv c (w :: commit_row world) =
      (Inr (JDict []), w\<lparr>llm_calls := llm_calls w @ [c], clock := clock w + latency henv\<rparr>)"
    by (simp add: analyze_payload [OF assms(1) assms(3) assms(4)] payload
        except_RequestException_def)
  have f: "\<And>c w. analyze_content_with_llm L wenv c (w :: file_row world) =
      (Inr (JDict []), w\<lparr>llm_calls := llm_calls w @ [c], clock := clock w + latency wenv\<rparr>)"
    by (simp add: analyze_payload [OF assms(2) assms(3) assms(4)] payload
        except_RequestException_def)
  have m: "rows (snd (main L henv w)) = rows w
      \<and> save_calls (snd (main L henv w)) = save_calls w"
    by (simp add: main_def init_database_def h split: sum.splits prod.splits)
  have t: "\<And>keys save. rows (snd (try_file keys save L wenv (src_path ev) fw)) = rows fw
      \<and> save_calls (snd (try_file keys save L wenv (src_path ev) fw)) = save_calls fw"
    by (simp add: try_file_def Let_def f split: sum.splits)
  show ?thesis
    using m t by (simp add: h on_modified_search_def on_modified_engine_def)
qed

theorem empty_payload_discarded_witness:
  \<open>post (hook_sample (Some \<lparr>status_code = 200, json_body = Some (JDict [])\<rparr>))
     = Some \<lparr>status_code = 200, json_body = Some (JDict [])\<rparr>
   \<and> map_of ([] :: (string \<times> json) list) ''response'' = None
   \<and> loads excerpt_lib ''{}'' = Inr (JDict [])
   \<and> fst (analyze_content_with_llm excerpt_lib
          (hook_sample (Some \<lparr>status_code = 200, json_body = Some (JDict [])\<rparr>))
          ''Add x'' (fresh :: commit_row world)) = Inr (JDict [])
   \<and> rows (snd (main excerpt_lib
          (hook_sample (Some \<lparr>status_code = 200, json_body = Some (JDict [])\<rparr>)) fresh)) = []
   \<and> rows (on_modified_search excerpt_lib
          (watch_sample (Some \<lparr>status_code = 200, json_body = Some (JDict [])\<rparr>))
          \<lparr>is_directory = False, src_path = ''/w/a.py''\<rparr> fresh) = []\<close>
  using empty_payload_discarded
    [of "hook_sample (Some \<lparr>status_code = 200, json_body = Some (JDict [])\<rparr>)"
        "\<lparr>status_code = 200, json_body = Some (JDict [])\<rparr>"
        "watch_sample (Some \<lparr>status_code = 200, json_body = Some (JDict [])\<rparr>)"
        "[]" excerpt_lib "''Add x''" fresh
        "\<lparr>is_directory = False, src_path = ''/w/a.py''\<rparr>" fresh]
  by (simp add: hook_sample_def watch_sample_def excerpt_lib_def fresh_def)

text \<open>
  C10. \<^verbatim>\<open>save_expertise\<close> does not check the types of the payload's fields. For a payload
  (a JSON object) in which \<^verbatim>\<open>primary_technologies\<close> is a string and \<^verbatim>\<open>supporting_libraries\<close> is
  absent, \<^verbatim>\<open>save_expertise\<close> of \<^verbatim>\<open>search.py\<close> raises \<^verbatim>\<open>TypeError\<close> at the concatenation of
  the string with the default list, and the watcher appends no row for the event.
\<close>

theorem search_save_rejects_string_field:
  assumes "map_of kvs ''primary_technologies'' = Some (JStr s)"
    and "map_of kvs ''supporting_libraries'' = None"
    and "post env = Some resp"
    and "status_code resp < 400 \<or> 600 \<le> status_code resp"
    and "json_body resp = Some (JDict ekvs)"
    and "map_of ekvs ''response'' = Some (JStr t)"
    and "loads L t = Inr (JDict kvs)"
  shows "(db_ok w \<longrightarrow>
            save_expertise_search L u p (JDict kvs) w
              = (Inl TypeError, w\<lparr>save_calls := Suc (save_calls w)\<rparr>))
       \<and> rows (on_modified_search L env ev w) = rows w"
proof -
  have a: "\<And>c w. analyze_content_with_llm L env c (w :: file_row world) =
      (Inr (JDict kvs), w\<lparr>llm_calls := llm_calls w @ [c], clock := clock w + latency env\<rparr>)"
    by (simp add: analyze_payload [OF assms(3) assms(4) assms(5)] assms(6) assms(7)
        get_default_def except_RequestException_def)
  have s: "\<And>u p w. save_expertise_search L u p (JDict kvs) w
      = (Inl (if db_ok w then TypeError else OperationalError),
         w\<lparr>save_calls := Suc (save_calls w)\<rparr>)"
    by (simp add: save_expertise_search_def Let_def
        search_insert_string_field [OF assms(1) assms(2)])
  have "rows (snd (try_file canonical_keys save_expertise_search L env (src_path ev) w)) = rows w"
    by (simp add: try_file_def Let_def a s eval_gets_dict split: sum.splits)
  then show ?thesis
    by (simp add: s on_modified_search_def)
qed

theorem search_save_rejects_string_field_witness:
  \<open>map_of [(''primary_technologies'', JStr ''Python'')] ''primary_technologies''
     = Some (JStr ''Python'')
   \<and> map_of [(''primary_technologies'', JStr ''Python'')] ''supporting_libraries'' = None
   \<and> post (watch_sample (Some (reply ''{"primary_technologies": "Python"}'')))
       = Some (reply ''{"primary_technologies": "Python"}'')
   \<and> loads excerpt_lib ''{"primary_technologies": "Python"}''
       = Inr (JDict [(''primary_technologies'', JStr ''Python'')])
   \<and> save_expertise_search excerpt_lib ''alice'' ''/w/a.py''
        (JDict [(''primary_technologies'', JStr ''Python'')]) fresh
       = (Inl TypeError, fresh\<lparr>save_calls := 1\<rparr>)
   \<and> rows (on_modified_search excerpt_lib
        (watch_sample (Some (reply ''{"primary_technologies": "Python"}'')))
        \<lparr>is_directory = False, src_path = ''/w/a.py''\<rparr> fresh) = []\<close>
  using search_save_rejects_string_field
    [where kvs = "[(''primary_technologies'', JStr ''Python'')]" and s = "''Python''"
       and env = \<open>watch_sample (Some (reply ''{"primary_technologies": "Python"}''))\<close>
       and resp = \<open>reply ''{"primary_technologies": "Python"}''\<close>
       and ekvs = \<open>[(''response'', JStr ''{"primary_technologies": "Python"}'')]\<close>
       and t = \<open>''{"primary_technologies": "Python"}''\<close>
       and L = excerpt_lib and w = fresh and u = "''alice''" and p = "''/w/a.py''"
       and ev = "\<lparr>is_directory = False, src_path = ''/w/a.py''\<rparr>"]
  by (simp add: watch_sample_def reply_def excerpt_lib_def fresh_def)

end
